theory Spec2Isabelle
  imports Main
begin

section \<open>Python values\<close>

text \<open>
  The weather router (\<^verbatim>\<open>routers/weather.py\<close>) works on three kinds of values: floats
  (coordinates, clock readings, the Celsius temperature), the values \<^verbatim>\<open>response.json()\<close>
  returns, and the dictionaries it builds from them.

  A Python float is an IEEE binary64 number. \<open>Float m e\<close> is the finite float of value
  \<open>m \<sdot> 2\<^sup>e\<close> (\<open>Float 0 e\<close> is \<open>+0.0\<close>); the other constructors are \<open>-0.0\<close>, the two
  infinities and not-a-number.
\<close>

datatype pyfloat = Float int int | NegZero | PosInf | NegInf | NaN

text \<open>
  What \<^verbatim>\<open>json.loads\<close> produces: \<^verbatim>\<open>None\<close>, \<^verbatim>\<open>bool\<close>, \<^verbatim>\<open>int\<close>, \<^verbatim>\<open>float\<close>, \<^verbatim>\<open>str\<close>,
  \<^verbatim>\<open>list\<close> and \<^verbatim>\<open>dict\<close> with string keys. A dictionary is the list of its items;
  a key is looked up from the front.
\<close>

datatype json =
    JNull
  | JBool bool
  | JInt int
  | JFloat pyfloat
  | JStr string
  | JArr "json list"
  | JObj "(string \<times> json) list"

text \<open>
  The exceptions the router can meet, all of them subclasses of \<^verbatim>\<open>Exception\<close>.
  \<open>HTTPStatusError status text\<close> carries \<^verbatim>\<open>e.response.status_code\<close> and
  \<^verbatim>\<open>e.response.text\<close>; \<open>RequestError msg\<close> stands for every subclass of
  \<^verbatim>\<open>httpx.RequestError\<close> with \<^verbatim>\<open>str(e) = msg\<close>; \<open>KeyError k\<close> carries the missing key.
\<close>

datatype exn =
    HTTPStatusError nat string
  | RequestError string
  | KeyError json
  | IndexError
  | TypeError
  | AttributeError
  | ValueError
  | OverflowError
  | JSONDecodeError
  | OtherError string

text \<open>A computation that may raise: \<open>Inl\<close> is the exception, \<open>Inr\<close> the value.\<close>

definition and_then :: "exn + 'a \<Rightarrow> ('a \<Rightarrow> exn + 'b) \<Rightarrow> exn + 'b" where
  "and_then r f = (case r of Inl e \<Rightarrow> Inl e | Inr v \<Rightarrow> f v)"

text \<open>Truth value of an object, as \<^verbatim>\<open>not x\<close> and \<^verbatim>\<open>x or y\<close> test it.\<close>

fun truthy :: "json \<Rightarrow> bool" where
  "truthy JNull = False"
| "truthy (JBool b) = b"
| "truthy (JInt n) = (n \<noteq> 0)"
| "truthy (JFloat (Float m e)) = (m \<noteq> 0)"
| "truthy (JFloat NegZero) = False"
| "truthy (JFloat x) = True"
| "truthy (JStr s) = (s \<noteq> [])"
| "truthy (JArr xs) = (xs \<noteq> [])"
| "truthy (JObj kvs) = (kvs \<noteq> [])"

text \<open>\<^verbatim>\<open>x or y\<close>\<close>

definition py_or :: "json \<Rightarrow> json \<Rightarrow> json" where
  "py_or x y = (if truthy x then x else y)"

text \<open>\<^verbatim>\<open>obj[key]\<close> with a string key.\<close>

fun subscript :: "json \<Rightarrow> string \<Rightarrow> exn + json" where
  "subscript (JObj kvs) k =
     (case map_of kvs k of None \<Rightarrow> Inl (KeyError (JStr k)) | Some v \<Rightarrow> Inr v)"
| "subscript v k = Inl TypeError"

text \<open>\<^verbatim>\<open>obj[0]\<close>. The keys of a parsed JSON object are strings, so \<open>0\<close> is never one.\<close>

fun subscript0 :: "json \<Rightarrow> exn + json" where
  "subscript0 (JArr []) = Inl IndexError"
| "subscript0 (JArr (x # xs)) = Inr x"
| "subscript0 (JStr []) = Inl IndexError"
| "subscript0 (JStr (c # cs)) = Inr (JStr [c])"
| "subscript0 (JObj kvs) = Inl (KeyError (JInt 0))"
| "subscript0 v = Inl TypeError"

text \<open>\<^verbatim>\<open>obj.get(key, default)\<close>: only a dictionary has the method.\<close>

fun dict_get :: "json \<Rightarrow> string \<Rightarrow> json \<Rightarrow> exn + json" where
  "dict_get (JObj kvs) k d = Inr (case map_of kvs k of None \<Rightarrow> d | Some v \<Rightarrow> v)"
| "dict_get v k d = Inl AttributeError"

text \<open>
  The items \<^verbatim>\<open>for x in obj\<close> runs through: the elements of a list, the keys of a
  dictionary, the characters of a string.
\<close>

fun iterate :: "json \<Rightarrow> exn + json list" where
  "iterate (JArr xs) = Inr xs"
| "iterate (JObj kvs) = Inr (map (\<lambda>kv. JStr (fst kv)) kvs)"
| "iterate (JStr s) = Inr (map (\<lambda>c. JStr [c]) s)"
| "iterate v = Inl TypeError"

text \<open>A list comprehension whose element expression may raise.\<close>

fun map_result :: "('a \<Rightarrow> exn + 'b) \<Rightarrow> 'a list \<Rightarrow> exn + 'b list" where
  "map_result f [] = Inr []"
| "map_result f (x # xs) =
     (case f x of
        Inl e \<Rightarrow> Inl e
      | Inr y \<Rightarrow> (case map_result f xs of Inl e \<Rightarrow> Inl e | Inr ys \<Rightarrow> Inr (y # ys)))"

section \<open>Float arithmetic\<close>

text \<open>
  \<open>round_div n d\<close> is the integer nearest to \<open>n / d\<close> for \<open>d > 0\<close>, a tie going to the
  even neighbour. It is the rounding of \<^verbatim>\<open>round(x)\<close>, of the \<^verbatim>\<open>.4f\<close> format and of
  every binary64 operation.
\<close>

definition round_div :: "int \<Rightarrow> int \<Rightarrow> int" where
  "round_div n d =
     (let f = n div d; r = n mod d
      in if 2 * r < d then f else if d < 2 * r then f + 1 else if even f then f else f + 1)"

text \<open>\<^verbatim>\<open>int.bit_length\<close>\<close>

fun bit_length :: "nat \<Rightarrow> int" where
  "bit_length n = (if n = 0 then 0 else 1 + bit_length (n div 2))"

declare bit_length.simps [simp del]

text \<open>\<open>\<lfloor>log\<^sub>2 (p / q)\<rfloor>\<close> for positive \<open>p\<close> and \<open>q\<close>.\<close>

definition ilog2 :: "int \<Rightarrow> int \<Rightarrow> int" where
  "ilog2 p q =
     (let d = bit_length (nat p) - bit_length (nat q)
      in if (if 0 \<le> d then q * 2 ^ nat d \<le> p else q \<le> p * 2 ^ nat (- d)) then d else d - 1)"

text \<open>
  \<open>fl n d e\<close> is the binary64 number nearest to the exact value \<open>(n / d) \<sdot> 2\<^sup>e\<close>
  (\<open>d > 0\<close>): 53 significant bits, ties to even, gradual underflow below \<open>2\<^sup>-\<^sup>1\<^sup>0\<^sup>2\<^sup>2\<close>,
  infinity from \<open>2\<^sup>1\<^sup>0\<^sup>2\<^sup>4\<close> on, and a zero result keeps the sign of the exact value.
\<close>

definition fl :: "int \<Rightarrow> int \<Rightarrow> int \<Rightarrow> pyfloat" where
  "fl n d e =
     (if n = 0 then Float 0 0
      else let a = \<bar>n\<bar>;
               ex = max (ilog2 a d + e - 52) (- 1074);
               s = e - ex;
               m = (if 0 \<le> s then round_div (a * 2 ^ nat s) d
                    else round_div a (d * 2 ^ nat (- s)))
           in if 1024 < ex + bit_length (nat m) then (if n < 0 then NegInf else PosInf)
              else if m = 0 then (if n < 0 then NegZero else Float 0 0)
              else Float (if n < 0 then - m else m) ex)"

text \<open>\<^verbatim>\<open>x * c\<close>, \<^verbatim>\<open>x / c\<close> and \<^verbatim>\<open>x + c\<close> for a float \<open>x\<close> and a positive integer constant \<open>c\<close>.\<close>

fun fmul :: "pyfloat \<Rightarrow> int \<Rightarrow> pyfloat" where
  "fmul (Float m e) c = fl (m * c) 1 e"
| "fmul x c = x"

fun fdiv :: "pyfloat \<Rightarrow> int \<Rightarrow> pyfloat" where
  "fdiv (Float m e) c = fl m c e"
| "fdiv x c = x"

fun fadd :: "pyfloat \<Rightarrow> int \<Rightarrow> pyfloat" where
  "fadd (Float m e) c =
     (if 0 \<le> e then fl (m * 2 ^ nat e + c) 1 0 else fl (m + c * 2 ^ nat (- e)) 1 e)"
| "fadd NegZero c = fl c 1 0"
| "fadd x c = x"

text \<open>\<^verbatim>\<open>a / b\<close> for integers, \<open>b > 0\<close>: the correctly rounded quotient.\<close>

definition int_truediv :: "int \<Rightarrow> int \<Rightarrow> exn + pyfloat" where
  "int_truediv a b =
     (case fl a b 0 of
        PosInf \<Rightarrow> Inl OverflowError
      | NegInf \<Rightarrow> Inl OverflowError
      | x \<Rightarrow> Inr x)"

text \<open>\<^verbatim>\<open>round(x)\<close> for a float: the nearest integer, a tie going to the even one.\<close>

fun py_round :: "pyfloat \<Rightarrow> exn + int" where
  "py_round (Float m e) = Inr (if 0 \<le> e then m * 2 ^ nat e else round_div m (2 ^ nat (- e)))"
| "py_round NegZero = Inr 0"
| "py_round PosInf = Inl OverflowError"
| "py_round NegInf = Inl OverflowError"
| "py_round NaN = Inl ValueError"

text \<open>Comparison of a float with an integer, exact as in Python.\<close>

fun float_lt_int :: "pyfloat \<Rightarrow> int \<Rightarrow> bool" where
  "float_lt_int (Float m e) c = (if 0 \<le> e then m * 2 ^ nat e < c else m < c * 2 ^ nat (- e))"
| "float_lt_int NegZero c = (0 < c)"
| "float_lt_int PosInf c = False"
| "float_lt_int NegInf c = True"
| "float_lt_int NaN c = False"

fun int_lt_float :: "int \<Rightarrow> pyfloat \<Rightarrow> bool" where
  "int_lt_float c (Float m e) = (if 0 \<le> e then c < m * 2 ^ nat e else c * 2 ^ nat (- e) < m)"
| "int_lt_float c NegZero = (c < 0)"
| "int_lt_float c PosInf = True"
| "int_lt_float c NegInf = False"
| "int_lt_float c NaN = False"

fun float_le_int :: "pyfloat \<Rightarrow> int \<Rightarrow> bool" where
  "float_le_int (Float m e) c = (if 0 \<le> e then m * 2 ^ nat e \<le> c else m \<le> c * 2 ^ nat (- e))"
| "float_le_int NegZero c = (0 \<le> c)"
| "float_le_int PosInf c = False"
| "float_le_int NegInf c = True"
| "float_le_int NaN c = False"

fun int_le_float :: "int \<Rightarrow> pyfloat \<Rightarrow> bool" where
  "int_le_float c (Float m e) = (if 0 \<le> e then c \<le> m * 2 ^ nat e else c * 2 ^ nat (- e) \<le> m)"
| "int_le_float c NegZero = (c \<le> 0)"
| "int_le_float c PosInf = True"
| "int_le_float c NegInf = False"
| "int_le_float c NaN = False"

text \<open>The float \<open>x\<close> is finite and its value is exactly \<open>k + 1/2\<close>.\<close>

fun float_eq_half :: "pyfloat \<Rightarrow> int \<Rightarrow> bool" where
  "float_eq_half (Float m e) k = (e < 0 \<and> 2 * m = (2 * k + 1) * 2 ^ nat (- e))"
| "float_eq_half x k = False"

section \<open>Celsius to Fahrenheit\<close>

text \<open>
  \<^verbatim>\<open>
  def celsius_to_fahrenheit(celsius: Optional[float]) -> Optional[int]:
      if celsius is None:
          return None
      return round((celsius * 9) / 5 + 32)
  \<close>
  The argument is whatever the observation payload holds under \<^verbatim>\<open>temperature.value\<close>.
  For an \<^verbatim>\<open>int\<close> (and a \<^verbatim>\<open>bool\<close>, which is one) the product is exact and the quotient
  is the first float; for a float every operation rounds. A string or a list can be
  multiplied by 9 but not divided; a dictionary cannot be multiplied.
\<close>

definition int_to_fahrenheit :: "int \<Rightarrow> exn + json" where
  "int_to_fahrenheit n =
     and_then (int_truediv (n * 9) 5) (\<lambda>q.
     and_then (py_round (fadd q 32)) (\<lambda>r. Inr (JInt r)))"

fun celsius_to_fahrenheit :: "json \<Rightarrow> exn + json" where
  "celsius_to_fahrenheit JNull = Inr JNull"
| "celsius_to_fahrenheit (JInt n) = int_to_fahrenheit n"
| "celsius_to_fahrenheit (JBool b) = int_to_fahrenheit (if b then 1 else 0)"
| "celsius_to_fahrenheit (JFloat x) =
     and_then (py_round (fadd (fdiv (fmul x 9) 5) 32)) (\<lambda>r. Inr (JInt r))"
| "celsius_to_fahrenheit v = Inl TypeError"

section \<open>The cache key\<close>

text \<open>
  \<^verbatim>\<open>cache_key = f"{lat:.4f},{lon:.4f}"\<close>. The \<^verbatim>\<open>.4f\<close> format writes the decimal number with
  four fractional digits that is nearest to the exact value of the float, a tie going to
  the even last digit, after a minus sign when the sign bit is set.
\<close>

definition digit_char :: "nat \<Rightarrow> char" where
  "digit_char d = ''0123456789'' ! d"

fun digits :: "nat \<Rightarrow> string" where
  "digits n = (if n < 10 then [digit_char n] else digits (n div 10) @ [digit_char (n mod 10)])"

declare digits.simps [simp del]

definition decimal_4 :: "bool \<Rightarrow> nat \<Rightarrow> string" where
  "decimal_4 negative n =
     (if negative then ''-'' else []) @ digits (n div 10000) @ ''.'' @
     [digit_char (n div 1000 mod 10), digit_char (n div 100 mod 10),
      digit_char (n div 10 mod 10), digit_char (n mod 10)]"

text \<open>\<open>scaled_4 m e\<close> is \<open>\<bar>m \<sdot> 2\<^sup>e\<bar> \<sdot> 10\<^sup>4\<close> rounded to an integer.\<close>

definition scaled_4 :: "int \<Rightarrow> int \<Rightarrow> nat" where
  "scaled_4 m e =
     nat (if 0 \<le> e then \<bar>m\<bar> * 10000 * 2 ^ nat e else round_div (\<bar>m\<bar> * 10000) (2 ^ nat (- e)))"

fun format_4f :: "pyfloat \<Rightarrow> string" where
  "format_4f (Float m e) = decimal_4 (m < 0) (scaled_4 m e)"
| "format_4f NegZero = ''-0.0000''"
| "format_4f PosInf = ''inf''"
| "format_4f NegInf = ''-inf''"
| "format_4f NaN = ''nan''"

definition cache_key :: "pyfloat \<Rightarrow> pyfloat \<Rightarrow> string" where
  "cache_key lat lon = format_4f lat @ '','' @ format_4f lon"

text \<open>
  The key as the specification words it, by truncation: the coordinate is multiplied by
  \<open>10\<^sup>4\<close>, the fractional part of the product is dropped, and what is left is written with
  four decimals (\<^verbatim>\<open>math.trunc(x * 10000) / 10000\<close>). Read so, the two pairs of the
  specification's example do truncate to one key.
\<close>

text \<open>\<open>\<bar>math.trunc(x)\<bar>\<close> for a finite float.\<close>

fun trunc_abs :: "pyfloat \<Rightarrow> nat" where
  "trunc_abs (Float m e) = nat (if 0 \<le> e then \<bar>m\<bar> * 2 ^ nat e else \<bar>m\<bar> div 2 ^ nat (- e))"
| "trunc_abs x = 0"

fun spec_truncate_4f :: "pyfloat \<Rightarrow> string" where
  "spec_truncate_4f (Float m e) = decimal_4 (m < 0) (trunc_abs (fmul (Float m e) 10000))"
| "spec_truncate_4f NegZero = ''-0.0000''"
| "spec_truncate_4f PosInf = ''inf''"
| "spec_truncate_4f NegInf = ''-inf''"
| "spec_truncate_4f NaN = ''nan''"

definition spec_truncated_key :: "pyfloat \<Rightarrow> pyfloat \<Rightarrow> string" where
  "spec_truncated_key lat lon = spec_truncate_4f lat @ '','' @ spec_truncate_4f lon"

section \<open>The data the router builds\<close>

text \<open>
  Each dictionary literal of the source is a record with the keys as fields. Two records
  may share a key (\<open>icon\<close>, \<open>temperature\<close>, \<open>city\<close>, ...); the field of the earlier record
  is then written with the record's name, as in \<open>conditions.icon\<close>.
\<close>

record conditions =
  timestamp :: json
  temperature :: json
  temperatureUnit :: json
  description :: json
  icon :: json
  humidity :: json
  windSpeed :: json
  windDirection :: json
  pressure :: json

record forecast_period =
  time :: json
  temperature :: json
  temperatureUnit :: json
  precipitationChance :: json
  relativeHumidity :: json
  windSpeed :: json
  windDirection :: json
  icon :: json
  shortForecast :: json
  isDaytime :: json

record gridpoint =
  gridId :: json
  gridX :: json
  gridY :: json
  forecastHourly :: json
  observationStations :: json
  city :: json
  state :: json

record cache_entry =
  data :: gridpoint
  timestamp :: pyfloat

record location =
  city :: json
  state :: json
  gridId :: json
  gridX :: json
  gridY :: json

record forecast_response =
  location :: location
  currentConditions :: "conditions option"
  hourlyForecast :: "forecast_period list"
  updated :: string

section \<open>The world outside: upstream, clock, cache\<close>

text \<open>
  A request is named by what the source builds its URL from:
  \<open>Points lat lon\<close> is \<^verbatim>\<open>f"{WEATHER_API_BASE}/points/{lat},{lon}"\<close>, \<open>Url u\<close> is the string
  \<open>u\<close> itself, and \<open>Observations v\<close> is \<^verbatim>\<open>f"{station_id}/observations/latest"\<close> for a
  station id \<open>v\<close> that is not a string.
\<close>

datatype target = Points pyfloat pyfloat | Url string | Observations json

text \<open>
  What \<^verbatim>\<open>await client.get(...)\<close> does: it returns a response, with its status code, its
  text and the value \<^verbatim>\<open>response.json()\<close> gives (\<open>None\<close> when the body is not JSON), or
  it raises.
\<close>

datatype outcome = Response nat string "json option" | Raises exn

text \<open>
  The environment answers the \<open>n\<close>-th request of the process, and gives the \<open>n\<close>-th
  reading of the clock (\<^verbatim>\<open>time.time()\<close>, and \<^verbatim>\<open>datetime.utcnow().isoformat()\<close>).
\<close>

record env =
  upstream :: "nat \<Rightarrow> target \<Rightarrow> outcome"
  clock :: "nat \<Rightarrow> pyfloat"
  utcnow_isoformat :: "nat \<Rightarrow> string"

text \<open>
  The state of the process: the module-level \<^verbatim>\<open>grid_point_cache\<close>, the requests issued
  so far, oldest first, and the number of clock readings taken.
\<close>

record world =
  grid_point_cache :: "string \<Rightarrow> cache_entry option"
  requests :: "target list"
  ticks :: nat

definition GRID_CACHE_TTL :: int where
  "GRID_CACHE_TTL = 24 * 60 * 60"

definition time_time :: "env \<Rightarrow> world \<Rightarrow> pyfloat \<times> world" where
  "time_time ev w = (clock ev (ticks w), w\<lparr>ticks := Suc (ticks w)\<rparr>)"

definition utcnow :: "env \<Rightarrow> world \<Rightarrow> string \<times> world" where
  "utcnow ev w = (utcnow_isoformat ev (ticks w), w\<lparr>ticks := Suc (ticks w)\<rparr>)"

definition client_get :: "env \<Rightarrow> target \<Rightarrow> world \<Rightarrow> outcome \<times> world" where
  "client_get ev t w = (upstream ev (length (requests w)) t, w\<lparr>requests := requests w @ [t]\<rparr>)"

text \<open>
  \<^verbatim>\<open>response.raise_for_status()\<close> raises for every status outside 200..299;
  \<^verbatim>\<open>response.json()\<close> raises when the body does not parse.
\<close>

definition is_success :: "nat \<Rightarrow> bool" where
  "is_success status = (200 \<le> status \<and> status \<le> 299)"

definition checked_json :: "outcome \<Rightarrow> exn + json" where
  "checked_json out =
     (case out of
        Raises e \<Rightarrow> Inl e
      | Response status text body \<Rightarrow>
          if is_success status
          then (case body of None \<Rightarrow> Inl JSONDecodeError | Some j \<Rightarrow> Inr j)
          else Inl (HTTPStatusError status text))"

text \<open>The three lines \<^verbatim>\<open>client.get\<close>, \<^verbatim>\<open>raise_for_status\<close>, \<^verbatim>\<open>json\<close> that every fetch starts with.\<close>

definition get_json :: "env \<Rightarrow> target \<Rightarrow> world \<Rightarrow> (exn + json) \<times> world" where
  "get_json ev t w = (case client_get ev t w of (out, w') \<Rightarrow> (checked_json out, w'))"

text \<open>A URL taken from a payload: \<^verbatim>\<open>client.get\<close> rejects what is not a string.\<close>

fun get_json_at :: "env \<Rightarrow> json \<Rightarrow> world \<Rightarrow> (exn + json) \<times> world" where
  "get_json_at ev (JStr u) w = get_json ev (Url u) w"
| "get_json_at ev v w = (Inl TypeError, w)"

fun observations_latest :: "json \<Rightarrow> target" where
  "observations_latest (JStr station_id) = Url (station_id @ ''/observations/latest'')"
| "observations_latest v = Observations v"

section \<open>get-grid-point\<close>

text \<open>\<^verbatim>\<open>x - y\<close> for two floats.\<close>

fun fsub :: "pyfloat \<Rightarrow> pyfloat \<Rightarrow> pyfloat" where
  "fsub (Float m1 e1) (Float m2 e2) =
     (let e = min e1 e2 in fl (m1 * 2 ^ nat (e1 - e) - m2 * 2 ^ nat (e2 - e)) 1 e)"
| "fsub (Float m e) NegZero = fl m 1 e"
| "fsub NegZero (Float m e) = (if m = 0 then NegZero else fl (- m) 1 e)"
| "fsub NegZero NegZero = Float 0 0"
| "fsub NaN y = NaN"
| "fsub x NaN = NaN"
| "fsub PosInf PosInf = NaN"
| "fsub NegInf NegInf = NaN"
| "fsub PosInf y = PosInf"
| "fsub NegInf y = NegInf"
| "fsub x PosInf = NegInf"
| "fsub x NegInf = PosInf"

text \<open>\<^verbatim>\<open>now - cached["timestamp"] < GRID_CACHE_TTL\<close>\<close>

definition fresh :: "pyfloat \<Rightarrow> cache_entry \<Rightarrow> bool" where
  "fresh now entry = float_lt_int (fsub now (timestamp entry)) GRID_CACHE_TTL"

text \<open>Lines 44 to 54: the dictionary \<^verbatim>\<open>data\<close> built from the payload.\<close>

definition grid_point_data :: "json \<Rightarrow> exn + gridpoint" where
  "grid_point_data body =
     and_then (subscript body ''properties'') (\<lambda>props.
     and_then (subscript props ''gridId'') (\<lambda>v1.
     and_then (subscript props ''gridX'') (\<lambda>v2.
     and_then (subscript props ''gridY'') (\<lambda>v3.
     and_then (subscript props ''forecastHourly'') (\<lambda>v4.
     and_then (subscript props ''observationStations'') (\<lambda>v5.
     and_then (subscript props ''relativeLocation'') (\<lambda>l1.
     and_then (subscript l1 ''properties'') (\<lambda>p1.
     and_then (subscript p1 ''city'') (\<lambda>v6.
     and_then (subscript props ''relativeLocation'') (\<lambda>l2.
     and_then (subscript l2 ''properties'') (\<lambda>p2.
     and_then (subscript p2 ''state'') (\<lambda>v7.
     Inr \<lparr>gridpoint.gridId = v1, gridpoint.gridX = v2, gridpoint.gridY = v3,
          forecastHourly = v4, observationStations = v5,
          gridpoint.city = v6, gridpoint.state = v7\<rparr>))))))))))))"

text \<open>Lines 35 to 57: the fetch, and the write to the cache when it succeeds.\<close>

definition fetch_grid_point ::
  "env \<Rightarrow> pyfloat \<Rightarrow> pyfloat \<Rightarrow> world \<Rightarrow> (exn + gridpoint) \<times> world" where
  "fetch_grid_point ev lat lon w =
     (case get_json ev (Points lat lon) w of
        (Inl e, w1) \<Rightarrow> (Inl e, w1)
      | (Inr body, w1) \<Rightarrow>
          (case grid_point_data body of
             Inl e \<Rightarrow> (Inl e, w1)
           | Inr d \<Rightarrow>
               (case time_time ev w1 of
                  (now, w2) \<Rightarrow>
                    (Inr d,
                     w2\<lparr>grid_point_cache :=
                          (grid_point_cache w2)(cache_key lat lon \<mapsto>
                             \<lparr>data = d, timestamp = now\<rparr>)\<rparr>))))"

text \<open>
  \<^verbatim>\<open>
  cached = grid_point_cache.get(cache_key)
  if cached and time.time() - cached["timestamp"] < GRID_CACHE_TTL:
      return cached["data"]
  \<close>
  An entry is a dictionary with two keys and so is true; the clock is read only when there
  is one.
\<close>

definition get_grid_point ::
  "env \<Rightarrow> pyfloat \<Rightarrow> pyfloat \<Rightarrow> world \<Rightarrow> (exn + gridpoint) \<times> world" where
  "get_grid_point ev lat lon w =
     (case grid_point_cache w (cache_key lat lon) of
        None \<Rightarrow> fetch_grid_point ev lat lon w
      | Some cached \<Rightarrow>
          (case time_time ev w of
             (now, w1) \<Rightarrow>
               if fresh now cached then (Inr (data cached), w1)
               else fetch_grid_point ev lat lon w1))"

section \<open>get-hourly-forecast\<close>

text \<open>The dictionary built for one period, lines 74 to 87.\<close>

definition period_entry :: "json \<Rightarrow> exn + forecast_period" where
  "period_entry period =
     and_then (subscript period ''startTime'') (\<lambda>v1.
     and_then (subscript period ''temperature'') (\<lambda>v2.
     and_then (subscript period ''temperatureUnit'') (\<lambda>v3.
     and_then (dict_get period ''probabilityOfPrecipitation'' (JObj [])) (\<lambda>c1.
     and_then (dict_get c1 ''value'' JNull) (\<lambda>v4.
     and_then (dict_get period ''relativeHumidity'' (JObj [])) (\<lambda>c2.
     and_then (dict_get c2 ''value'' JNull) (\<lambda>v5.
     and_then (subscript period ''windSpeed'') (\<lambda>v6.
     and_then (subscript period ''windDirection'') (\<lambda>v7.
     and_then (subscript period ''icon'') (\<lambda>v8.
     and_then (subscript period ''shortForecast'') (\<lambda>v9.
     and_then (subscript period ''isDaytime'') (\<lambda>v10.
     Inr \<lparr>time = v1, temperature = v2, temperatureUnit = v3, precipitationChance = v4,
          relativeHumidity = v5, windSpeed = v6, windDirection = v7, icon = v8,
          shortForecast = v9, isDaytime = v10\<rparr>))))))))))))"

definition hourly_periods :: "json \<Rightarrow> exn + forecast_period list" where
  "hourly_periods body =
     and_then (subscript body ''properties'') (\<lambda>props.
     and_then (subscript props ''periods'') (\<lambda>periods.
     and_then (iterate periods) (\<lambda>ps. map_result period_entry ps)))"

definition get_hourly_forecast ::
  "env \<Rightarrow> json \<Rightarrow> world \<Rightarrow> (exn + forecast_period list) \<times> world" where
  "get_hourly_forecast ev url w =
     (case get_json_at ev url w of
        (Inl e, w1) \<Rightarrow> (Inl e, w1)
      | (Inr body, w1) \<Rightarrow> (hourly_periods body, w1))"

text \<open>
  The period as the specification describes it: the required fields copied, the two
  optional ones taken from a nested \<open>{value}\<close> object and null when the object or its
  value is absent.
\<close>

definition spec_optional_value :: "(string \<times> json) list \<Rightarrow> string \<Rightarrow> json" where
  "spec_optional_value kvs k =
     (case map_of kvs k of
        Some (JObj c) \<Rightarrow> (case map_of c ''value'' of Some v \<Rightarrow> v | None \<Rightarrow> JNull)
      | _ \<Rightarrow> JNull)"

definition spec_field :: "(string \<times> json) list \<Rightarrow> string \<Rightarrow> json" where
  "spec_field kvs k = (case map_of kvs k of Some v \<Rightarrow> v | None \<Rightarrow> JNull)"

definition spec_period :: "(string \<times> json) list \<Rightarrow> forecast_period" where
  "spec_period kvs =
     \<lparr>time = spec_field kvs ''startTime'',
      temperature = spec_field kvs ''temperature'',
      temperatureUnit = spec_field kvs ''temperatureUnit'',
      precipitationChance = spec_optional_value kvs ''probabilityOfPrecipitation'',
      relativeHumidity = spec_optional_value kvs ''relativeHumidity'',
      windSpeed = spec_field kvs ''windSpeed'',
      windDirection = spec_field kvs ''windDirection'',
      icon = spec_field kvs ''icon'',
      shortForecast = spec_field kvs ''shortForecast'',
      isDaytime = spec_field kvs ''isDaytime''\<rparr>"

text \<open>
  An upstream period the transformation accepts: an object with the eight required
  keys, whose two optional containers are objects where they are present.
\<close>

definition has_key :: "(string \<times> json) list \<Rightarrow> string \<Rightarrow> bool" where
  "has_key kvs k = (map_of kvs k \<noteq> None)"

definition optional_object :: "(string \<times> json) list \<Rightarrow> string \<Rightarrow> bool" where
  "optional_object kvs k =
     (case map_of kvs k of None \<Rightarrow> True | Some (JObj c) \<Rightarrow> True | Some v \<Rightarrow> False)"

definition upstream_period :: "(string \<times> json) list \<Rightarrow> bool" where
  "upstream_period kvs =
     (has_key kvs ''startTime'' \<and> has_key kvs ''temperature''
      \<and> has_key kvs ''temperatureUnit'' \<and> has_key kvs ''windSpeed''
      \<and> has_key kvs ''windDirection'' \<and> has_key kvs ''icon''
      \<and> has_key kvs ''shortForecast'' \<and> has_key kvs ''isDaytime''
      \<and> optional_object kvs ''probabilityOfPrecipitation''
      \<and> optional_object kvs ''relativeHumidity'')"

section \<open>get-current-conditions\<close>

text \<open>Lines 121 to 134: the dictionary built from the observation's properties.\<close>

definition observation_conditions :: "json \<Rightarrow> exn + conditions" where
  "observation_conditions props =
     and_then (dict_get props ''temperature'' (JObj [])) (\<lambda>c0.
     and_then (dict_get c0 ''value'' JNull) (\<lambda>temp_c.
     and_then (celsius_to_fahrenheit temp_c) (\<lambda>temp_f.
     and_then (dict_get props ''timestamp'' JNull) (\<lambda>v1.
     and_then (dict_get props ''textDescription'' JNull) (\<lambda>v2.
     and_then (dict_get props ''icon'' JNull) (\<lambda>v3.
     and_then (dict_get props ''relativeHumidity'' (JObj [])) (\<lambda>c4.
     and_then (dict_get c4 ''value'' JNull) (\<lambda>v4.
     and_then (dict_get props ''windSpeed'' (JObj [])) (\<lambda>c5.
     and_then (dict_get c5 ''value'' JNull) (\<lambda>v5.
     and_then (dict_get props ''windDirection'' (JObj [])) (\<lambda>c6.
     and_then (dict_get c6 ''value'' JNull) (\<lambda>v6.
     and_then (dict_get props ''barometricPressure'' (JObj [])) (\<lambda>c7.
     and_then (dict_get c7 ''value'' JNull) (\<lambda>v7.
     Inr \<lparr>conditions.timestamp = v1, conditions.temperature = temp_f,
          conditions.temperatureUnit = JStr ''F'',
          description = py_or v2 (JStr ''N/A''), conditions.icon = py_or v3 (JStr []),
          humidity = v4, conditions.windSpeed = v5, conditions.windDirection = v6,
          pressure = v7\<rparr>))))))))))))))"

text \<open>
  An observation the transformation accepts: the five containers are objects where they
  are present, and the temperature can be converted.
\<close>

definition observation_ok :: "(string \<times> json) list \<Rightarrow> bool" where
  "observation_ok kvs =
     (optional_object kvs ''temperature'' \<and> optional_object kvs ''relativeHumidity''
      \<and> optional_object kvs ''windSpeed'' \<and> optional_object kvs ''windDirection''
      \<and> optional_object kvs ''barometricPressure''
      \<and> (case celsius_to_fahrenheit (spec_optional_value kvs ''temperature'') of
            Inl e \<Rightarrow> False | Inr t \<Rightarrow> True))"

text \<open>The body of the \<^verbatim>\<open>try\<close> block, lines 95 to 134.\<close>

definition current_conditions_try ::
  "env \<Rightarrow> json \<Rightarrow> world \<Rightarrow> (exn + conditions option) \<times> world" where
  "current_conditions_try ev stations_url w =
     (case get_json_at ev stations_url w of
        (Inl e, w1) \<Rightarrow> (Inl e, w1)
      | (Inr body, w1) \<Rightarrow>
          (case subscript body ''features'' of
             Inl e \<Rightarrow> (Inl e, w1)
           | Inr stations \<Rightarrow>
               if \<not> truthy stations then (Inr None, w1)
               else (case and_then (subscript0 stations) (\<lambda>s. subscript s ''id'') of
                       Inl e \<Rightarrow> (Inl e, w1)
                     | Inr station_id \<Rightarrow>
                         (case get_json ev (observations_latest station_id) w1 of
                            (Inl e, w2) \<Rightarrow> (Inl e, w2)
                          | (Inr obs, w2) \<Rightarrow>
                              (case and_then (subscript obs ''properties'')
                                      observation_conditions of
                                 Inl e \<Rightarrow> (Inl e, w2)
                               | Inr c \<Rightarrow> (Inr (Some c), w2))))))"

text \<open>
  \<^verbatim>\<open>
  except Exception as e:
      return None
  \<close>
\<close>

definition get_current_conditions ::
  "env \<Rightarrow> json \<Rightarrow> world \<Rightarrow> (exn + conditions option) \<times> world" where
  "get_current_conditions ev stations_url w =
     (case current_conditions_try ev stations_url w of
        (Inl e, w1) \<Rightarrow> (Inr None, w1)
      | (Inr c, w1) \<Rightarrow> (Inr c, w1))"

section \<open>get-forecast\<close>

text \<open>
  The \<^verbatim>\<open>detail\<close> of the \<^verbatim>\<open>HTTPException\<close> raised by the handler. \<open>Failed e\<close> is
  \<^verbatim>\<open>f"Failed to fetch weather: {str(e)}"\<close>.
\<close>

datatype detail = Message string | Failed exn

datatype http_exception = HTTPException nat detail

fun status_code :: "http_exception \<Rightarrow> nat" where
  "status_code (HTTPException code d) = code"

fun translate :: "exn \<Rightarrow> http_exception" where
  "translate (HTTPStatusError status text) =
     HTTPException status (Message (''Weather API error: '' @ text))"
| "translate (RequestError msg) =
     HTTPException 503 (Message (''Weather API unavailable: '' @ msg))"
| "translate e = HTTPException 500 (Failed e)"

definition get_forecast ::
  "env \<Rightarrow> pyfloat \<Rightarrow> pyfloat \<Rightarrow> world \<Rightarrow> (http_exception + forecast_response) \<times> world" where
  "get_forecast ev lat lon w =
     (case get_grid_point ev lat lon w of
        (Inl e, w1) \<Rightarrow> (Inl (translate e), w1)
      | (Inr grid_point, w1) \<Rightarrow>
          (case get_hourly_forecast ev (forecastHourly grid_point) w1 of
             (Inl e, w2) \<Rightarrow> (Inl (translate e), w2)
           | (Inr hourly_forecast, w2) \<Rightarrow>
               (case get_current_conditions ev (observationStations grid_point) w2 of
                  (Inl e, w3) \<Rightarrow> (Inl (translate e), w3)
                | (Inr current_conditions, w3) \<Rightarrow>
                    (case utcnow ev w3 of
                       (now, w4) \<Rightarrow>
                         (Inr \<lparr>location =
                                 \<lparr>city = gridpoint.city grid_point,
                                  state = gridpoint.state grid_point,
                                  gridId = gridpoint.gridId grid_point,
                                  gridX = gridpoint.gridX grid_point,
                                  gridY = gridpoint.gridY grid_point\<rparr>,
                               currentConditions = current_conditions,
                               hourlyForecast = hourly_forecast,
                               updated = now @ ''Z''\<rparr>,
                          w4)))))"

text \<open>
  The route. \<^verbatim>\<open>Query(..., ge=-90, le=90)\<close> and \<^verbatim>\<open>Query(..., ge=-180, le=180)\<close> are checked
  by FastAPI before the handler is called; a request that fails them is answered with
  FastAPI's validation response, status 422, and \<^verbatim>\<open>main.py\<close> installs no other handler for
  it. An \<^verbatim>\<open>HTTPException\<close> is answered with its own status code. What the handler returns
  is written as JSON, which has no infinity and no not-a-number: a result that holds one
  cannot be written, and the answer is then an internal server error, status 500.
\<close>

definition valid_query :: "pyfloat \<Rightarrow> pyfloat \<Rightarrow> bool" where
  "valid_query lat lon =
     (int_le_float (- 90) lat \<and> float_le_int lat 90
      \<and> int_le_float (- 180) lon \<and> float_le_int lon 180)"

fun finite_float :: "pyfloat \<Rightarrow> bool" where
  "finite_float (Float m e) = True"
| "finite_float NegZero = True"
| "finite_float x = False"

fun json_compliant :: "json \<Rightarrow> bool" where
  "json_compliant (JFloat x) = finite_float x"
| "json_compliant (JArr xs) = list_all json_compliant xs"
| "json_compliant (JObj kvs) = list_all (\<lambda>kv. json_compliant (snd kv)) kvs"
| "json_compliant v = True"

definition conditions_compliant :: "conditions \<Rightarrow> bool" where
  "conditions_compliant c =
     (json_compliant (conditions.timestamp c) \<and> json_compliant (conditions.temperature c)
      \<and> json_compliant (conditions.temperatureUnit c) \<and> json_compliant (description c)
      \<and> json_compliant (conditions.icon c) \<and> json_compliant (humidity c)
      \<and> json_compliant (conditions.windSpeed c) \<and> json_compliant (conditions.windDirection c)
      \<and> json_compliant (pressure c))"

definition period_compliant :: "forecast_period \<Rightarrow> bool" where
  "period_compliant p =
     (json_compliant (time p) \<and> json_compliant (temperature p)
      \<and> json_compliant (temperatureUnit p) \<and> json_compliant (precipitationChance p)
      \<and> json_compliant (relativeHumidity p) \<and> json_compliant (windSpeed p)
      \<and> json_compliant (windDirection p) \<and> json_compliant (icon p)
      \<and> json_compliant (shortForecast p) \<and> json_compliant (isDaytime p))"

definition response_compliant :: "forecast_response \<Rightarrow> bool" where
  "response_compliant r =
     (json_compliant (city (location r)) \<and> json_compliant (state (location r))
      \<and> json_compliant (gridId (location r)) \<and> json_compliant (gridX (location r))
      \<and> json_compliant (gridY (location r))
      \<and> (case currentConditions r of None \<Rightarrow> True | Some c \<Rightarrow> conditions_compliant c)
      \<and> list_all period_compliant (hourlyForecast r))"

datatype reply =
    Success forecast_response
  | Failure http_exception
  | ValidationFailure
  | InternalServerError

fun reply_status :: "reply \<Rightarrow> nat" where
  "reply_status (Success r) = 200"
| "reply_status (Failure e) = status_code e"
| "reply_status ValidationFailure = 422"
| "reply_status InternalServerError = 500"

definition forecast_route :: "env \<Rightarrow> pyfloat \<Rightarrow> pyfloat \<Rightarrow> world \<Rightarrow> reply \<times> world" where
  "forecast_route ev lat lon w =
     (if valid_query lat lon
      then (case get_forecast ev lat lon w of
              (Inl e, w1) \<Rightarrow> (Failure e, w1)
            | (Inr r, w1) \<Rightarrow>
                (if response_compliant r then Success r else InternalServerError, w1))
      else (ValidationFailure, w))"

section \<open>A sample run\<close>

text \<open>
  Concrete inputs on which the definitions are evaluated: the floats Python reads from
  \<^verbatim>\<open>40.7129\<close>, \<^verbatim>\<open>-74.0059\<close>, \<^verbatim>\<open>40.712904\<close> and \<^verbatim>\<open>-74.005901\<close>, an upstream that answers
  the four requests of the service, and a clock that advances by an hour at each reading.
\<close>

definition ex_lat :: pyfloat where
  "ex_lat = Float 5729831289661633 (- 47)"

definition ex_lon :: pyfloat where
  "ex_lon = Float (- 650962780592223) (- 43)"

definition ex_lat2 :: pyfloat where
  "ex_lat2 = Float 5729831852611587 (- 47)"

definition ex_lon2 :: pyfloat where
  "ex_lon2 = Float (- 162740697347079) (- 41)"

text \<open>The float Python reads from \<^verbatim>\<open>40.71296\<close>.\<close>

definition ex_lat3 :: pyfloat where
  "ex_lat3 = Float 5729839733910935 (- 47)"

definition ex_hourly_url :: string where
  "ex_hourly_url = ''https://api.weather.gov/gridpoints/OKX/33,35/forecast/hourly''"

definition ex_stations_url :: string where
  "ex_stations_url = ''https://api.weather.gov/gridpoints/OKX/33,35/stations''"

definition ex_gridpoint :: gridpoint where
  "ex_gridpoint =
     \<lparr>gridpoint.gridId = JStr ''OKX'', gridpoint.gridX = JInt 33, gridpoint.gridY = JInt 35,
      forecastHourly = JStr ex_hourly_url, observationStations = JStr ex_stations_url,
      gridpoint.city = JStr ''Hoboken'', gridpoint.state = JStr ''NJ''\<rparr>"

definition ex_points_body :: json where
  "ex_points_body =
     JObj [(''properties'',
        JObj [(''gridId'', JStr ''OKX''), (''gridX'', JInt 33), (''gridY'', JInt 35),
              (''forecastHourly'', JStr ex_hourly_url),
              (''observationStations'', JStr ex_stations_url),
              (''relativeLocation'',
                 JObj [(''properties'',
                    JObj [(''city'', JStr ''Hoboken''), (''state'', JStr ''NJ'')])])])]"

definition ex_period_1 :: "(string \<times> json) list" where
  "ex_period_1 =
     [(''startTime'', JStr ''2023-11-14T17:00:00-05:00''), (''temperature'', JInt 48),
      (''temperatureUnit'', JStr ''F''),
      (''probabilityOfPrecipitation'', JObj [(''unitCode'', JStr ''wmoUnit:percent''), (''value'', JInt 20)]),
      (''relativeHumidity'', JObj [(''unitCode'', JStr ''wmoUnit:percent'')]),
      (''windSpeed'', JStr ''7 mph''), (''windDirection'', JStr ''NW''),
      (''icon'', JStr ''https://api.weather.gov/icons/land/day/few''),
      (''shortForecast'', JStr ''Sunny''), (''isDaytime'', JBool True)]"

definition ex_period_2 :: "(string \<times> json) list" where
  "ex_period_2 =
     [(''startTime'', JStr ''2023-11-14T18:00:00-05:00''), (''temperature'', JInt 46),
      (''temperatureUnit'', JStr ''F''),
      (''windSpeed'', JStr ''6 mph''), (''windDirection'', JStr ''NW''),
      (''icon'', JStr ''https://api.weather.gov/icons/land/night/few''),
      (''shortForecast'', JStr ''Mostly Clear''), (''isDaytime'', JBool False)]"

definition ex_hourly_body :: json where
  "ex_hourly_body =
     JObj [(''properties'', JObj [(''periods'', JArr [JObj ex_period_1, JObj ex_period_2])])]"

definition ex_stations_body :: json where
  "ex_stations_body = JObj [(''features'', JArr [])]"

definition ex_upstream :: "outcome \<Rightarrow> outcome \<Rightarrow> nat \<Rightarrow> target \<Rightarrow> outcome" where
  "ex_upstream points hourly n t =
     (case t of
        Points lat lon \<Rightarrow> points
      | Url u \<Rightarrow>
          if u = ex_hourly_url then hourly
          else if u = ex_stations_url then Response 200 [] (Some ex_stations_body)
          else Raises (RequestError ''Name or service not known'')
      | Observations v \<Rightarrow> Raises (RequestError ''Request URL is missing a protocol''))"

definition ex_clock :: "nat \<Rightarrow> pyfloat" where
  "ex_clock n = Float (1700000000 + 3600 * int n) 0"

text \<open>
  The upstream is healthy in \<open>ex_env\<close>; in \<open>ex_env_503\<close> the hourly forecast is down, in
  \<open>ex_env_404\<close> the points lookup knows no such place.
\<close>

definition ex_env :: env where
  "ex_env =
     \<lparr>upstream = ex_upstream (Response 200 [] (Some ex_points_body))
                   (Response 200 [] (Some ex_hourly_body)),
      clock = ex_clock,
      utcnow_isoformat = (\<lambda>n. ''2023-11-14T22:13:20'')\<rparr>"

definition ex_env_503 :: env where
  "ex_env_503 =
     \<lparr>upstream = ex_upstream (Response 200 [] (Some ex_points_body))
                   (Response 503 ''Service Unavailable'' None),
      clock = ex_clock,
      utcnow_isoformat = (\<lambda>n. ''2023-11-14T22:13:20'')\<rparr>"

definition ex_env_404 :: env where
  "ex_env_404 =
     \<lparr>upstream = ex_upstream (Response 404 ''Not Found'' None)
                   (Response 200 [] (Some ex_hourly_body)),
      clock = ex_clock,
      utcnow_isoformat = (\<lambda>n. ''2023-11-14T22:13:20'')\<rparr>"

text \<open>An observation whose description and icon are empty strings.\<close>

definition ex_observation :: "(string \<times> json) list" where
  "ex_observation =
     [(''timestamp'', JStr ''2023-11-14T21:51:00+00:00''),
      (''textDescription'', JStr []), (''icon'', JStr []),
      (''temperature'', JObj [(''unitCode'', JStr ''wmoUnit:degC''), (''value'', JFloat (Float 5 (- 1)))]),
      (''relativeHumidity'', JObj [(''value'', JNull)]),
      (''windSpeed'', JObj [(''value'', JInt 11)]),
      (''barometricPressure'', JObj [(''value'', JInt 101930)])]"

text \<open>
  In \<open>ex_env_observed\<close> one station is listed, and its latest observation is the one
  above.
\<close>

definition ex_station_id :: string where
  "ex_station_id = ''https://api.weather.gov/stations/KNYC''"

definition ex_stations_listed :: json where
  "ex_stations_listed =
     JObj [(''features'', JArr [JObj [(''id'', JStr ex_station_id)]])]"

definition ex_observation_body :: json where
  "ex_observation_body = JObj [(''properties'', JObj ex_observation)]"

definition ex_upstream_observed :: "nat \<Rightarrow> target \<Rightarrow> outcome" where
  "ex_upstream_observed n t =
     (if t = Url ex_stations_url then Response 200 [] (Some ex_stations_listed)
      else if t = Url (ex_station_id @ ''/observations/latest'')
      then Response 200 [] (Some ex_observation_body)
      else Raises (RequestError ''Name or service not known''))"

definition ex_env_observed :: env where
  "ex_env_observed =
     \<lparr>upstream = ex_upstream_observed,
      clock = ex_clock,
      utcnow_isoformat = (\<lambda>n. ''2023-11-14T22:13:20'')\<rparr>"

definition ex_conditions :: conditions where
  "ex_conditions =
     \<lparr>conditions.timestamp = JStr ''2023-11-14T21:51:00+00:00'',
      conditions.temperature = JInt 36, conditions.temperatureUnit = JStr ''F'',
      description = JStr ''N/A'', conditions.icon = JStr [],
      humidity = JNull, conditions.windSpeed = JInt 11,
      conditions.windDirection = JNull, pressure = JInt 101930\<rparr>"

definition ex_world :: world where
  "ex_world = \<lparr>grid_point_cache = Map.empty, requests = [], ticks = 0\<rparr>"

definition ex_entry :: cache_entry where
  "ex_entry = \<lparr>data = ex_gridpoint, timestamp = Float 1700000000 0\<rparr>"

text \<open>The state after the first call of \<^verbatim>\<open>get_grid_point\<close>.\<close>

definition ex_world_cached :: world where
  "ex_world_cached =
     \<lparr>grid_point_cache = [cache_key ex_lat ex_lon \<mapsto> ex_entry],
      requests = [Points ex_lat ex_lon], ticks = 1\<rparr>"

text \<open>What the service answers in \<open>ex_env\<close>, where no observation station is listed.\<close>

definition ex_response :: forecast_response where
  "ex_response =
     \<lparr>location =
        \<lparr>city = JStr ''Hoboken'', state = JStr ''NJ'', gridId = JStr ''OKX'',
         gridX = JInt 33, gridY = JInt 35\<rparr>,
      currentConditions = None,
      hourlyForecast = [spec_period ex_period_1, spec_period ex_period_2],
      updated = ''2023-11-14T22:13:20Z''\<rparr>"

section \<open>Evaluation lemmas\<close>

lemma bit_length_0: "bit_length 0 = 0"
  by (simp add: bit_length.simps)

lemma bit_length_1: "bit_length (Suc 0) = 1"
  by (simp add: bit_length.simps)

lemma bit_length_numeral: "bit_length (numeral k) = 1 + bit_length (numeral k div 2)"
  by (subst bit_length.simps) simp

lemmas fl_eval = fl_def ilog2_def round_div_def bit_length_0 bit_length_1 bit_length_numeral

lemmas c2f_eval = int_to_fahrenheit_def int_truediv_def and_then_def fl_eval





lemma c2f_2_5: "celsius_to_fahrenheit (JFloat (Float 5 (- 1))) = Inr (JInt 36)"
  by (simp add: c2f_eval)

lemma c2f_7_5: "celsius_to_fahrenheit (JFloat (Float 15 (- 1))) = Inr (JInt 46)"
  by (simp add: c2f_eval)

lemma py_round_half:
  assumes "float_eq_half x k"
  shows "py_round x = Inr (if even k then k else k + 1)"
proof (cases x)
  case (Float m e)
  define h :: int where "h = 2 ^ (nat (- e) - 1)"
  from assms Float have e: "e < 0" and m2: "2 * m = (2 * k + 1) * 2 ^ nat (- e)"
    by simp_all
  from e have "nat (- e) = Suc (nat (- e) - 1)"
    by simp
  then have d: "(2::int) ^ nat (- e) = 2 * h"
    unfolding h_def by (metis power_Suc)
  have hpos: "0 < h"
    by (simp add: h_def)
  from m2 d have m: "m = 2 * h * k + h"
    by (simp add: algebra_simps)
  have dv: "m div (2 * h) = k"
    using m hpos by (intro int_div_pos_eq [where r = h]) simp_all
  have md: "m mod (2 * h) = h"
    using m hpos by (intro int_mod_pos_eq [where q = k]) simp_all
  show ?thesis
    using e hpos by (simp add: Float round_div_def d dv md)
qed (use assms in simp_all)

section \<open>The cache key and the grid point cache: lemmas\<close>

lemma round_div_nearest:
  assumes "0 < d"
  shows "\<bar>2 * (round_div n d * d - n)\<bar> \<le> d"
proof -
  define q where "q = n div d"
  define r where "r = n mod d"
  have n: "n = q * d + r"
    by (simp add: q_def r_def)
  have r: "0 \<le> r" "r < d"
    using assms by (simp_all add: r_def)
  show ?thesis
    unfolding round_div_def Let_def q_def [symmetric] r_def [symmetric]
    using r by (auto simp: n algebra_simps)
qed

lemma digits_small: "n < 10 \<Longrightarrow> digits n = [digit_char n]"
  by (subst digits.simps) simp

lemma digits_large: "\<not> n < 10 \<Longrightarrow> digits n = digits (n div 10) @ [digit_char (n mod 10)]"
  by (subst digits.simps) simp

lemmas key_eval = ex_lat_def ex_lon_def ex_lat2_def ex_lon2_def ex_lat3_def cache_key_def
  spec_truncated_key_def decimal_4_def scaled_4_def round_div_def digits_small digits_large
  digit_char_def

lemma ex_key_1: "cache_key ex_lat ex_lon = ''40.7129,-74.0059''"
  by (simp add: key_eval)

lemma ex_key_2: "cache_key ex_lat2 ex_lon2 = ''40.7129,-74.0059''"
  by (simp add: key_eval)

lemma ex_key_3: "cache_key ex_lat3 ex_lon = ''40.7130,-74.0059''"
  by (simp add: key_eval)

lemma ex_truncated_1: "spec_truncated_key ex_lat ex_lon = ''40.7129,-74.0059''"
  by (simp add: key_eval fl_eval)

lemma ex_truncated_2: "spec_truncated_key ex_lat2 ex_lon2 = ''40.7129,-74.0059''"
  by (simp add: key_eval fl_eval)

lemma ex_truncated_3: "spec_truncated_key ex_lat3 ex_lon = ''40.7129,-74.0059''"
  by (simp add: key_eval fl_eval)

text \<open>The truncation of the specification does give its two example pairs one key.\<close>

lemma spec_truncation_example:
  "spec_truncated_key ex_lat ex_lon = spec_truncated_key ex_lat2 ex_lon2"
  by (simp add: ex_truncated_1 ex_truncated_2)

lemma get_json_eq:
  "get_json ev t w = (checked_json (upstream ev (length (requests w)) t), w\<lparr>requests := requests w @ [t]\<rparr>)"
  by (simp add: get_json_def client_get_def)

lemma fetch_requests: "requests (snd (fetch_grid_point ev lat lon w)) = requests w @ [Points lat lon]"
  by (simp add: fetch_grid_point_def get_json_eq time_time_def split: sum.splits)

lemma fetch_success:
  assumes "fetch_grid_point ev lat lon w = (Inr d, w')"
  shows "w' = w\<lparr>requests := requests w @ [Points lat lon], ticks := Suc (ticks w),
              grid_point_cache := (grid_point_cache w)(cache_key lat lon \<mapsto>
                 \<lparr>data = d, timestamp = clock ev (ticks w)\<rparr>)\<rparr>"
  using assms
  by (auto simp add: fetch_grid_point_def get_json_eq time_time_def split: sum.splits)


lemma hit:
  assumes "grid_point_cache w (cache_key lat lon) = Some c" and "fresh (clock ev (ticks w)) c"
  shows "get_grid_point ev lat lon w = (Inr (data c), w\<lparr>ticks := Suc (ticks w)\<rparr>)"
  using assms by (simp add: get_grid_point_def time_time_def)

lemma miss_absent:
  assumes "grid_point_cache w (cache_key lat lon) = None"
  shows "get_grid_point ev lat lon w = fetch_grid_point ev lat lon w"
  using assms by (simp add: get_grid_point_def)

lemma miss_stale:
  assumes "grid_point_cache w (cache_key lat lon) = Some c" and "\<not> fresh (clock ev (ticks w)) c"
  shows "get_grid_point ev lat lon w = fetch_grid_point ev lat lon (w\<lparr>ticks := Suc (ticks w)\<rparr>)"
  using assms by (simp add: get_grid_point_def time_time_def)

lemma get_grid_point_requests:
  "requests (snd (get_grid_point ev lat lon w)) = requests w
   \<or> requests (snd (get_grid_point ev lat lon w)) = requests w @ [Points lat lon]"
  by (simp add: get_grid_point_def time_time_def fetch_requests split: option.splits)

lemma grid_point_twice:
  assumes first: "get_grid_point ev lat lon w = (Inr g, w1)"
    and within: "float_lt_int (fsub (clock ev (ticks w1)) (clock ev (ticks w1 - 1))) GRID_CACHE_TTL"
    and second: "get_grid_point ev lat lon w1 = (r2, w2)"
  shows "length (requests w2) \<le> Suc (length (requests w))
         \<and> (requests w1 \<noteq> requests w \<longrightarrow> r2 = Inr g \<and> requests w2 = requests w1)"
proof (cases "requests w1 = requests w")
  case True
  from get_grid_point_requests [of ev lat lon w1] second
  have "requests w2 = requests w1 \<or> requests w2 = requests w1 @ [Points lat lon]"
    by simp
  with True show ?thesis
    by auto
next
  case False
  have stored: "\<exists>w0. fetch_grid_point ev lat lon w0 = (Inr g, w1) \<and> requests w0 = requests w"
  proof (cases "grid_point_cache w (cache_key lat lon)")
    case None
    with first show ?thesis
      by (auto simp: miss_absent)
  next
    case (Some c)
    show ?thesis
    proof (cases "fresh (clock ev (ticks w)) c")
      case True
      with Some first False show ?thesis
        by (auto simp: hit)
    next
      case stale: False
      with Some first show ?thesis
        by (auto simp: miss_stale intro!: exI [of _ "w\<lparr>ticks := Suc (ticks w)\<rparr>"])
    qed
  qed
  then obtain w0 where f: "fetch_grid_point ev lat lon w0 = (Inr g, w1)"
    and r: "requests w0 = requests w"
    by blast
  note w1 = fetch_success [OF f]
  have entry: "grid_point_cache w1 (cache_key lat lon)
                 = Some \<lparr>data = g, timestamp = clock ev (ticks w1 - 1)\<rparr>"
    by (subst (1 2) w1) simp
  have "fresh (clock ev (ticks w1)) \<lparr>data = g, timestamp = clock ev (ticks w1 - 1)\<rparr>"
    using within by (simp add: fresh_def)
  from hit [OF entry this] second have "r2 = Inr g" and "w2 = w1\<lparr>ticks := Suc (ticks w1)\<rparr>"
    by simp_all
  moreover have "requests w1 = requests w @ [Points lat lon]"
    by (subst w1) (simp add: r)
  ultimately show ?thesis
    by simp
qed


lemmas ex_defs = ex_env_def ex_env_503_def ex_env_404_def ex_upstream_def ex_clock_def ex_world_def
  ex_entry_def ex_world_cached_def ex_points_body_def ex_gridpoint_def

lemma ex_first_call:
  "get_grid_point ex_env ex_lat ex_lon ex_world = (Inr ex_gridpoint, ex_world_cached)"
  by (simp add: get_grid_point_def fetch_grid_point_def get_json_eq checked_json_def
      is_success_def grid_point_data_def and_then_def time_time_def ex_defs)

lemma ex_fresh: "fresh (clock ex_env (ticks ex_world_cached)) ex_entry"
  by (simp add: fresh_def GRID_CACHE_TTL_def ex_defs fl_eval)

lemma ex_within:
  "float_lt_int (fsub (clock ex_env (ticks ex_world_cached)) (clock ex_env (ticks ex_world_cached - 1))) GRID_CACHE_TTL"
  by (simp add: GRID_CACHE_TTL_def ex_defs fl_eval)

lemma ex_cached_entry: "grid_point_cache ex_world_cached (cache_key ex_lat ex_lon) = Some ex_entry"
  by (simp add: ex_world_cached_def)

section \<open>The forecast, the conditions and the route: lemmas\<close>

lemma and_then_Inr: "and_then r f = Inr y \<longleftrightarrow> (\<exists>x. r = Inr x \<and> f x = Inr y)"
  by (cases r) (simp_all add: and_then_def)

lemma and_then_value: "and_then (Inr x) f = f x"
  by (simp add: and_then_def)


lemma dict_get_Inr:
  "dict_get p k d = Inr v \<longleftrightarrow>
     (\<exists>kvs. p = JObj kvs \<and> v = (case map_of kvs k of None \<Rightarrow> d | Some x \<Rightarrow> x))"
  by (cases p) auto

lemma subscript_has_key: "has_key kvs k \<Longrightarrow> subscript (JObj kvs) k = Inr (spec_field kvs k)"
  by (auto simp add: has_key_def spec_field_def)

lemma optional_value:
  assumes "optional_object kvs k"
  shows "and_then (dict_get (JObj kvs) k (JObj [])) (\<lambda>c. and_then (dict_get c ''value'' JNull) g)
           = g (spec_optional_value kvs k)"
  using assms
  by (auto simp add: optional_object_def spec_optional_value_def and_then_def
      split: option.splits json.splits)

lemma period_entry_spec:
  assumes "upstream_period kvs"
  shows "period_entry (JObj kvs) = Inr (spec_period kvs)"
  using assms unfolding upstream_period_def period_entry_def
  by (simp add: subscript_has_key optional_value and_then_value spec_period_def
      del: subscript.simps dict_get.simps)



lemma periods_spec:
  assumes "list_all upstream_period kvss"
  shows "map_result period_entry (map JObj kvss) = Inr (map spec_period kvss)"
  using assms by (induction kvss) (simp_all add: period_entry_spec)




lemma hourly_periods_spec:
  assumes "subscript body ''properties'' = Inr props"
    and "subscript props ''periods'' = Inr (JArr (map JObj kvss))"
    and "list_all upstream_period kvss"
  shows "hourly_periods body = Inr (map spec_period kvss)"
  using assms by (simp add: hourly_periods_def and_then_value periods_spec)

lemma observation_conditions_defaults:
  assumes "observation_conditions props = Inr c"
  shows "\<exists>kvs. props = JObj kvs
           \<and> description c = py_or (spec_field kvs ''textDescription'') (JStr ''N/A'')
           \<and> conditions.icon c = py_or (spec_field kvs ''icon'') (JStr [])"
proof -
  from assms obtain kvs where p: "props = JObj kvs"
    unfolding observation_conditions_def and_then_Inr dict_get_Inr by blast
  have g: "dict_get (JObj kvs) k JNull = Inr (spec_field kvs k)" for k
    by (simp add: spec_field_def)
  from assms [unfolded p observation_conditions_def and_then_Inr g]
  have "description c = py_or (spec_field kvs ''textDescription'') (JStr ''N/A'')
           \<and> conditions.icon c = py_or (spec_field kvs ''icon'') (JStr [])"
    by auto
  with p show ?thesis
    by blast
qed

lemma get_current_conditions_total:
  "\<exists>c. fst (get_current_conditions ev url w) = Inr c"
  by (simp add: get_current_conditions_def split: prod.splits sum.splits)

lemma observation_conditions_ok:
  assumes "observation_ok kvs"
  shows "\<exists>c. observation_conditions (JObj kvs) = Inr c"
proof -
  from assms obtain t where t: "celsius_to_fahrenheit (spec_optional_value kvs ''temperature'') = Inr t"
    by (auto simp add: observation_ok_def split: sum.splits)
  have g: "and_then (dict_get (JObj kvs) k JNull) f = f (spec_field kvs k)" for k f
    by (simp add: spec_field_def and_then_value)
  from assms t show ?thesis
    unfolding observation_ok_def observation_conditions_def
    by (simp add: optional_value g and_then_value del: dict_get.simps)
qed

lemma conditions_run:
  assumes "upstream ev (length (requests w)) (Url u) = Response st1 t1 (Some sbody)"
    and "is_success st1"
    and "subscript sbody ''features'' = Inr stations"
    and "truthy stations"
    and "subscript0 stations = Inr s0"
    and "subscript s0 ''id'' = Inr station_id"
    and "upstream ev (Suc (length (requests w))) (observations_latest station_id)
           = Response st2 t2 (Some obs)"
    and "is_success st2"
    and "subscript obs ''properties'' = Inr props"
  shows "get_current_conditions ev (JStr u) w
           = (case observation_conditions props of
                Inl e \<Rightarrow> Inr None | Inr c \<Rightarrow> Inr (Some c),
              w\<lparr>requests := requests w @ [Url u, observations_latest station_id]\<rparr>)"
  using assms
  by (simp add: get_current_conditions_def current_conditions_try_def get_json_eq
      checked_json_def and_then_value split: sum.splits)

lemma try_first_fetch_fails:
  assumes "checked_json (upstream ev (length (requests w)) (Url u)) = Inl e"
  shows "get_current_conditions ev (JStr u) w = (Inr None, w\<lparr>requests := requests w @ [Url u]\<rparr>)"
  using assms
  by (simp add: get_current_conditions_def current_conditions_try_def get_json_eq)

lemma no_stations:
  assumes "upstream ev (length (requests w)) (Url u) = Response status text (Some body)"
    and "is_success status" and "subscript body ''features'' = Inr stations"
    and "\<not> truthy stations"
  shows "get_current_conditions ev (JStr u) w = (Inr None, w\<lparr>requests := requests w @ [Url u]\<rparr>)"
  using assms
  by (simp add: get_current_conditions_def current_conditions_try_def get_json_eq checked_json_def)

lemma forecast_after_hourly:
  assumes "get_grid_point ev lat lon w = (Inr gp, w1)"
    and "get_hourly_forecast ev (forecastHourly gp) w1 = (Inr hf, w2)"
  shows "\<exists>r w'. get_forecast ev lat lon w = (Inr r, w')
           \<and> hourlyForecast r = hf
           \<and> Inr (currentConditions r) = fst (get_current_conditions ev (observationStations gp) w2)"
proof -
  obtain c w3 where c: "get_current_conditions ev (observationStations gp) w2 = (Inr c, w3)"
    using get_current_conditions_total [of ev "observationStations gp" w2]
    by (cases "get_current_conditions ev (observationStations gp) w2") auto
  show ?thesis
    using assms c by (simp add: get_forecast_def utcnow_def)
qed

lemma forecast_points_error:
  assumes "case grid_point_cache w (cache_key lat lon) of
             None \<Rightarrow> True | Some c \<Rightarrow> \<not> fresh (clock ev (ticks w)) c"
    and "upstream ev (length (requests w)) (Points lat lon) = Response status text body"
    and "\<not> is_success status"
  shows "fst (get_forecast ev lat lon w)
           = Inl (HTTPException status (Message (''Weather API error: '' @ text)))"
  using assms
  by (auto simp add: get_forecast_def get_grid_point_def fetch_grid_point_def get_json_eq
      checked_json_def time_time_def split: option.splits)

lemma forecast_hourly_error:
  assumes "get_grid_point ev lat lon w = (Inr gp, w1)"
    and "forecastHourly gp = JStr u"
    and "upstream ev (length (requests w1)) (Url u) = Response status text body"
    and "\<not> is_success status"
  shows "fst (get_forecast ev lat lon w)
           = Inl (HTTPException status (Message (''Weather API error: '' @ text)))"
  using assms
  by (simp add: get_forecast_def get_hourly_forecast_def get_json_eq checked_json_def)

lemma outside_invalid:
  assumes "float_lt_int lat (- 90) \<or> int_lt_float 90 lat
           \<or> float_lt_int lon (- 180) \<or> int_lt_float 180 lon"
  shows "\<not> valid_query lat lon"
proof -
  have a: "float_lt_int x c \<Longrightarrow> \<not> int_le_float c x" for x c
    by (cases x) (auto split: if_splits)
  have b: "int_lt_float c x \<Longrightarrow> \<not> float_le_int x c" for x c
    by (cases x) (auto split: if_splits)
  from assms a b show ?thesis
    unfolding valid_query_def by blast
qed

lemma route_invalid:
  assumes "\<not> valid_query lat lon"
  shows "forecast_route ev lat lon w = (ValidationFailure, w)"
  using assms by (simp add: forecast_route_def)

section \<open>The sample run evaluated\<close>

lemma ex_urls: "ex_stations_url \<noteq> ex_hourly_url"
  by (simp add: ex_stations_url_def ex_hourly_url_def)

lemma ex_periods: "upstream_period ex_period_1" "upstream_period ex_period_2"
  by (simp_all add: upstream_period_def has_key_def optional_object_def
      ex_period_1_def ex_period_2_def)

lemma ex_hourly:
  "get_hourly_forecast ex_env (JStr ex_hourly_url) ex_world_cached
     = (Inr [spec_period ex_period_1, spec_period ex_period_2],
        ex_world_cached\<lparr>requests := [Points ex_lat ex_lon, Url ex_hourly_url]\<rparr>)"
proof -
  have "hourly_periods ex_hourly_body = Inr (map spec_period [ex_period_1, ex_period_2])"
    by (rule hourly_periods_spec [where props = "JObj [(''periods'', JArr [JObj ex_period_1, JObj ex_period_2])]"])
      (simp_all add: ex_hourly_body_def ex_periods)
  then show ?thesis
    by (simp add: get_hourly_forecast_def get_json_eq checked_json_def is_success_def
        ex_env_def ex_upstream_def ex_world_cached_def)
qed

lemma ex_no_stations:
  "get_current_conditions ex_env (JStr ex_stations_url)
      (ex_world_cached\<lparr>requests := [Points ex_lat ex_lon, Url ex_hourly_url]\<rparr>)
     = (Inr None,
        ex_world_cached\<lparr>requests := [Points ex_lat ex_lon, Url ex_hourly_url, Url ex_stations_url]\<rparr>)"
proof -
  have "get_current_conditions ex_env (JStr ex_stations_url)
      (ex_world_cached\<lparr>requests := [Points ex_lat ex_lon, Url ex_hourly_url]\<rparr>)
     = (Inr None,
        ex_world_cached\<lparr>requests := [Points ex_lat ex_lon, Url ex_hourly_url]\<rparr>
          \<lparr>requests := requests (ex_world_cached\<lparr>requests := [Points ex_lat ex_lon, Url ex_hourly_url]\<rparr>)
              @ [Url ex_stations_url]\<rparr>)"
    by (rule no_stations [of _ _ _ 200 "[]" ex_stations_body "JArr []"])
      (simp_all add: ex_env_def ex_upstream_def ex_urls ex_stations_body_def is_success_def)
  then show ?thesis
    by simp
qed

lemma ex_forecast:
  "get_forecast ex_env ex_lat ex_lon ex_world
     = (Inr ex_response,
        ex_world_cached\<lparr>requests := [Points ex_lat ex_lon, Url ex_hourly_url, Url ex_stations_url],
                         ticks := 2\<rparr>)"
proof -
  have now: "utcnow_isoformat ex_env n = ''2023-11-14T22:13:20''" for n
    by (simp add: ex_env_def)
  have urls: "forecastHourly ex_gridpoint = JStr ex_hourly_url"
    "observationStations ex_gridpoint = JStr ex_stations_url"
    by (simp_all add: ex_gridpoint_def)
  show ?thesis
    by (simp add: get_forecast_def ex_first_call urls ex_hourly ex_no_stations utcnow_def now
        ex_response_def)
      (simp add: ex_gridpoint_def ex_world_cached_def)
qed

lemma ex_first_call_503:
  "get_grid_point ex_env_503 ex_lat ex_lon ex_world = (Inr ex_gridpoint, ex_world_cached)"
  by (simp add: get_grid_point_def fetch_grid_point_def get_json_eq checked_json_def
      is_success_def grid_point_data_def and_then_def time_time_def ex_defs)

lemma ex_observed:
  "observation_conditions (JObj ex_observation)
     = Inr \<lparr>conditions.timestamp = JStr ''2023-11-14T21:51:00+00:00'',
            conditions.temperature = JInt 36, conditions.temperatureUnit = JStr ''F'',
            description = JStr ''N/A'', conditions.icon = JStr [],
            humidity = JNull, conditions.windSpeed = JInt 11,
            conditions.windDirection = JNull, pressure = JInt 101930\<rparr>"
  by (simp add: observation_conditions_def ex_observation_def py_or_def c2f_eval)

lemma ex_observed_run:
  "get_current_conditions ex_env_observed (JStr ex_stations_url) ex_world
     = (Inr (Some ex_conditions),
        ex_world\<lparr>requests := [Url ex_stations_url, Url (ex_station_id @ ''/observations/latest'')]\<rparr>)"
proof -
  have o: "observation_conditions (JObj ex_observation) = Inr ex_conditions"
    using ex_observed by (simp add: ex_conditions_def)
  have "get_current_conditions ex_env_observed (JStr ex_stations_url) ex_world
     = (case observation_conditions (JObj ex_observation) of
                Inl e \<Rightarrow> Inr None | Inr c \<Rightarrow> Inr (Some c),
        ex_world\<lparr>requests := requests ex_world
           @ [Url ex_stations_url, observations_latest (JStr ex_station_id)]\<rparr>)"
    by (rule conditions_run [where ?st1.0 = 200 and ?t1.0 = "[]" and sbody = ex_stations_listed
          and stations = "JArr [JObj [(''id'', JStr ex_station_id)]]"
          and ?s0.0 = "JObj [(''id'', JStr ex_station_id)]"
          and ?st2.0 = 200 and ?t2.0 = "[]" and obs = ex_observation_body])
      (simp_all add: ex_env_observed_def ex_upstream_observed_def ex_stations_listed_def
        ex_observation_body_def is_success_def ex_world_def ex_stations_url_def ex_station_id_def)
  then show ?thesis
    by (simp add: o ex_world_def)
qed

lemma ex_observation_ok: "observation_ok ex_observation"
  by (simp add: observation_ok_def optional_object_def spec_optional_value_def
      ex_observation_def c2f_eval)

lemma ex_valid: "valid_query ex_lat ex_lon"
  by (simp add: valid_query_def ex_lat_def ex_lon_def)

lemma ex_invalid: "int_lt_float 90 (Float 91 0)"
  by simp

section \<open>Properties of the temperature conversion\<close>


text \<open>
  C10. When the float \<^verbatim>\<open>(celsius * 9) / 5 + 32\<close> is exactly halfway between two integers,
  \<open>k + 1/2\<close>, the result is the even one of \<open>k\<close> and \<open>k + 1\<close>, not the one away from zero:
  \<^verbatim>\<open>celsius_to_fahrenheit(2.5) == 36\<close> (from 36.5) and \<^verbatim>\<open>celsius_to_fahrenheit(7.5) == 46\<close>
  (from 45.5).
\<close>

theorem celsius_to_fahrenheit_half_even:
  "(float_eq_half (fadd (fdiv (fmul x 9) 5) 32) k \<longrightarrow>
      celsius_to_fahrenheit (JFloat x) = Inr (JInt (if even k then k else k + 1)))
   \<and> float_eq_half (fadd (fdiv (fmul (Float 5 (- 1)) 9) 5) 32) 36
   \<and> celsius_to_fahrenheit (JFloat (Float 5 (- 1))) = Inr (JInt 36)
   \<and> float_eq_half (fadd (fdiv (fmul (Float 15 (- 1)) 9) 5) 32) 45
   \<and> celsius_to_fahrenheit (JFloat (Float 15 (- 1))) = Inr (JInt 46)"
proof -
  have "float_eq_half (fadd (fdiv (fmul x 9) 5) 32) k \<Longrightarrow>
      celsius_to_fahrenheit (JFloat x) = Inr (JInt (if even k then k else k + 1))"
    using py_round_half [of "fadd (fdiv (fmul x 9) 5) 32" k] by (simp add: and_then_def)
  moreover have "float_eq_half (fadd (fdiv (fmul (Float 5 (- 1)) 9) 5) 32) 36"
    by (simp add: fl_eval)
  moreover have "float_eq_half (fadd (fdiv (fmul (Float 15 (- 1)) 9) 5) 32) 45"
    by (simp add: fl_eval)
  ultimately show ?thesis
    using c2f_2_5 c2f_7_5 by blast
qed

theorem celsius_to_fahrenheit_half_even_witness:
  "float_eq_half (fadd (fdiv (fmul (Float 5 (- 1)) 9) 5) 32) 36
   \<and> celsius_to_fahrenheit (JFloat (Float 5 (- 1))) = Inr (JInt 36)"
  using celsius_to_fahrenheit_half_even [of "Float 5 (- 1)" 36] by simp

lemma round_div_tie:
  assumes "0 < d" and "2 * (n mod d) = d"
  shows "even (round_div n d)"
  using assms by (simp add: round_div_def Let_def)

lemma round_div_nonneg: "0 \<le> n \<Longrightarrow> 0 < d \<Longrightarrow> 0 \<le> round_div n d"
  by (simp add: round_div_def Let_def pos_imp_zdiv_nonneg_iff)

section \<open>Properties of the grid point cache\<close>

text \<open>
  C1. When the cache holds an entry for the key of \<open>(lat, lon)\<close> and the clock reading minus
  the entry's timestamp is below 24 hours, \<^verbatim>\<open>get_grid_point\<close> returns the entry's grid point
  and issues no request: the state changes by the one clock reading only. Hence two calls
  for the same coordinates, the first returning a grid point and the second reading the
  clock less than 24 hours after the first call's last reading, issue at most one request
  together; and when the first call did fetch, the second returns the same grid point and
  issues none.
\<close>

theorem grid_point_served_from_cache:
  "(grid_point_cache w (cache_key lat lon) = Some c \<and> fresh (clock ev (ticks w)) c \<longrightarrow>
      get_grid_point ev lat lon w = (Inr (data c), w\<lparr>ticks := Suc (ticks w)\<rparr>)
      \<and> requests (snd (get_grid_point ev lat lon w)) = requests w)
   \<and> (get_grid_point ev lat lon w = (Inr g, w1)
       \<and> float_lt_int (fsub (clock ev (ticks w1)) (clock ev (ticks w1 - 1))) GRID_CACHE_TTL
       \<and> get_grid_point ev lat lon w1 = (r2, w2) \<longrightarrow>
      length (requests w2) \<le> Suc (length (requests w))
      \<and> (requests w1 \<noteq> requests w \<longrightarrow> r2 = Inr g \<and> requests w2 = requests w1))"
proof (intro conjI impI)
  assume a: "grid_point_cache w (cache_key lat lon) = Some c \<and> fresh (clock ev (ticks w)) c"
  then show "get_grid_point ev lat lon w = (Inr (data c), w\<lparr>ticks := Suc (ticks w)\<rparr>)"
    by (simp add: hit)
  from a show "requests (snd (get_grid_point ev lat lon w)) = requests w"
    by (simp add: hit)
next
  assume b: "get_grid_point ev lat lon w = (Inr g, w1)
       \<and> float_lt_int (fsub (clock ev (ticks w1)) (clock ev (ticks w1 - 1))) GRID_CACHE_TTL
       \<and> get_grid_point ev lat lon w1 = (r2, w2)"
  then have "length (requests w2) \<le> Suc (length (requests w))
      \<and> (requests w1 \<noteq> requests w \<longrightarrow> r2 = Inr g \<and> requests w2 = requests w1)"
    using grid_point_twice [of ev lat lon w g w1 r2 w2] by blast
  then show "length (requests w2) \<le> Suc (length (requests w))"
    and "requests w1 \<noteq> requests w \<Longrightarrow> r2 = Inr g"
    and "requests w1 \<noteq> requests w \<Longrightarrow> requests w2 = requests w1"
    by simp_all
qed

theorem grid_point_served_from_cache_witness:
  "grid_point_cache ex_world_cached (cache_key ex_lat ex_lon) = Some ex_entry
   \<and> fresh (clock ex_env (ticks ex_world_cached)) ex_entry
   \<and> get_grid_point ex_env ex_lat ex_lon ex_world_cached
       = (Inr ex_gridpoint, ex_world_cached\<lparr>ticks := 2\<rparr>)
   \<and> get_grid_point ex_env ex_lat ex_lon ex_world = (Inr ex_gridpoint, ex_world_cached)
   \<and> float_lt_int
       (fsub (clock ex_env (ticks ex_world_cached)) (clock ex_env (ticks ex_world_cached - 1)))
       GRID_CACHE_TTL
   \<and> requests (ex_world_cached\<lparr>ticks := 2\<rparr>) = [Points ex_lat ex_lon]
   \<and> requests ex_world = []"
proof -
  have second: "get_grid_point ex_env ex_lat ex_lon ex_world_cached
       = (Inr ex_gridpoint, ex_world_cached\<lparr>ticks := 2\<rparr>)"
    using grid_point_served_from_cache
      [of ex_world_cached ex_lat ex_lon ex_entry ex_env ex_gridpoint ex_world_cached
        "Inr ex_gridpoint" ex_world_cached]
      ex_cached_entry ex_fresh
    by (simp add: ex_entry_def ex_world_cached_def)
  have "length (requests (ex_world_cached\<lparr>ticks := 2\<rparr>)) \<le> Suc (length (requests ex_world))"
    using grid_point_served_from_cache
      [of ex_world ex_lat ex_lon ex_entry ex_env ex_gridpoint ex_world_cached
        "Inr ex_gridpoint" "ex_world_cached\<lparr>ticks := 2\<rparr>"]
      ex_first_call ex_within second
    by simp
  with second ex_cached_entry ex_fresh ex_first_call ex_within show ?thesis
    by (simp add: ex_world_cached_def ex_world_def)
qed



section \<open>Properties of the cache key\<close>

text \<open>
  C7, as the code has it. The key is the latitude and the longitude in the \<^verbatim>\<open>.4f\<close>
  format, joined by a comma. The format rounds, it does not truncate: the four-decimal
  number written for a finite float of value \<open>m \<sdot> 2\<^sup>e\<close> is \<open>scaled_4 m e / 10\<^sup>4\<close>, where
  \<open>scaled_4 m e\<close> is an integer nearest to \<open>\<bar>m\<bar> \<sdot> 2\<^sup>e \<sdot> 10\<^sup>4\<close>, the even one when two are
  equally near. The coordinates (40.71290, -74.00590) and (40.712904, -74.005901) both
  get the key \<^verbatim>\<open>40.7129,-74.0059\<close>.
\<close>

theorem cache_key_rounds_to_4_decimals:
  "cache_key lat lon = format_4f lat @ '','' @ format_4f lon
   \<and> format_4f (Float m e) = decimal_4 (m < 0) (scaled_4 m e)
   \<and> (if 0 \<le> e then int (scaled_4 m e) = \<bar>m\<bar> * 10000 * 2 ^ nat e
       else \<bar>2 * (int (scaled_4 m e) * 2 ^ nat (- e) - \<bar>m\<bar> * 10000)\<bar> \<le> 2 ^ nat (- e)
            \<and> (if 2 * ((\<bar>m\<bar> * 10000) mod 2 ^ nat (- e)) = 2 ^ nat (- e)
                then even (scaled_4 m e) else True))
   \<and> cache_key ex_lat ex_lon = ''40.7129,-74.0059''
   \<and> cache_key ex_lat2 ex_lon2 = ''40.7129,-74.0059''"
proof -
  have pos: "(0::int) < 2 ^ nat (- e)"
    by simp
  have nn: "0 \<le> round_div (\<bar>m\<bar> * 10000) (2 ^ nat (- e))"
    by (rule round_div_nonneg) simp_all
  have near: "\<not> 0 \<le> e \<Longrightarrow>
      \<bar>2 * (int (scaled_4 m e) * 2 ^ nat (- e) - \<bar>m\<bar> * 10000)\<bar> \<le> 2 ^ nat (- e)"
    using round_div_nearest [OF pos, of "\<bar>m\<bar> * 10000"] nn by (simp add: scaled_4_def)
  have tie: "\<not> 0 \<le> e \<Longrightarrow> 2 * ((\<bar>m\<bar> * 10000) mod 2 ^ nat (- e)) = 2 ^ nat (- e) \<Longrightarrow>
      even (scaled_4 m e)"
    using round_div_tie [OF pos, of "\<bar>m\<bar> * 10000"] nn
    by (simp add: scaled_4_def even_nat_iff)
  have exact: "0 \<le> e \<Longrightarrow> int (scaled_4 m e) = \<bar>m\<bar> * 10000 * 2 ^ nat e"
    by (simp add: scaled_4_def)
  show ?thesis
    using near tie exact ex_key_1 ex_key_2 by (simp add: cache_key_def)
qed

theorem cache_key_rounds_to_4_decimals_witness:
  "\<not> 0 \<le> (- 47 :: int)
   \<and> format_4f ex_lat = ''40.7129''
   \<and> scaled_4 5729831289661633 (- 47) = 407129
   \<and> \<bar>2 * (407129 * 2 ^ 47 - 5729831289661633 * 10000)\<bar> \<le> (2 ^ 47 :: int)"
proof -
  have s: "scaled_4 5729831289661633 (- 47) = 407129"
    by (simp add: scaled_4_def round_div_def)
  have f: "format_4f ex_lat = ''40.7129''"
    by (simp add: key_eval)
  from cache_key_rounds_to_4_decimals [of ex_lat ex_lon 5729831289661633 "- 47"] s f
  show ?thesis
    by simp
qed

text \<open>
  C7 as the claim words it, by truncation, fails at latitude 40.71296: the key of the
  code is \<^verbatim>\<open>40.7130,-74.0059\<close>, and truncation gives \<^verbatim>\<open>40.7129,-74.0059\<close>, whether the
  product with \<open>10\<^sup>4\<close> is taken in floating point, as \<open>spec_truncated_key\<close> does, or exactly.
\<close>

theorem cache_key_truncation_counterexample:
  "cache_key ex_lat3 ex_lon = ''40.7130,-74.0059''
   \<and> spec_truncated_key ex_lat3 ex_lon = ''40.7129,-74.0059''
   \<and> (5729839733910935 * 10000) div 2 ^ 47 = (407129 :: int)
   \<and> cache_key ex_lat3 ex_lon \<noteq> spec_truncated_key ex_lat3 ex_lon"
  by (simp add: ex_key_3 ex_truncated_3)

section \<open>Properties of the hourly forecast\<close>



section \<open>Properties of the current conditions\<close>

text \<open>
  C9. Take a run of \<^verbatim>\<open>get_current_conditions\<close> in which the stations request is answered
  with a list whose first station has the id \<open>station_id\<close>, and the request for that
  station's latest observation is answered with a payload whose \<^verbatim>\<open>properties\<close> are the
  object \<open>kvs\<close>. Whatever conditions the run returns, their \<^verbatim>\<open>description\<close> is the
  payload's \<^verbatim>\<open>textDescription\<close> when that is a true value and \<^verbatim>\<open>"N/A"\<close> when it is missing,
  null or any other false value, and their \<^verbatim>\<open>icon\<close> is the payload's \<^verbatim>\<open>icon\<close> or the empty
  string in the same way. The run does return conditions when the payload is well formed;
  so for every such payload whose \<^verbatim>\<open>textDescription\<close> is present and is the empty string
  the returned description is \<^verbatim>\<open>"N/A"\<close>, and an empty \<^verbatim>\<open>icon\<close> is returned as the empty string.
\<close>

theorem conditions_default_on_falsy:
  assumes "upstream ev (length (requests w)) (Url u) = Response st1 t1 (Some sbody)"
    and "is_success st1"
    and "subscript sbody ''features'' = Inr stations"
    and "truthy stations"
    and "subscript0 stations = Inr s0"
    and "subscript s0 ''id'' = Inr station_id"
    and "upstream ev (Suc (length (requests w))) (observations_latest station_id)
           = Response st2 t2 (Some obs)"
    and "is_success st2"
    and "subscript obs ''properties'' = Inr (JObj kvs)"
  shows "get_current_conditions ev (JStr u) w
           = (case observation_conditions (JObj kvs) of
                Inl e \<Rightarrow> Inr None | Inr c \<Rightarrow> Inr (Some c),
              w\<lparr>requests := requests w @ [Url u, observations_latest station_id]\<rparr>)
     \<and> (\<forall>c. fst (get_current_conditions ev (JStr u) w) = Inr (Some c) \<longrightarrow>
           description c =
             (case map_of kvs ''textDescription'' of
                None \<Rightarrow> JStr ''N/A''
              | Some v \<Rightarrow> if truthy v then v else JStr ''N/A'')
           \<and> conditions.icon c =
             (case map_of kvs ''icon'' of
                None \<Rightarrow> JStr []
              | Some v \<Rightarrow> if truthy v then v else JStr []))
     \<and> (observation_ok kvs \<longrightarrow>
           (\<exists>c. fst (get_current_conditions ev (JStr u) w) = Inr (Some c)))
     \<and> (observation_ok kvs \<and> map_of kvs ''textDescription'' = Some (JStr []) \<longrightarrow>
           (\<exists>c. fst (get_current_conditions ev (JStr u) w) = Inr (Some c)
                \<and> description c = JStr ''N/A''))
     \<and> (observation_ok kvs \<and> map_of kvs ''icon'' = Some (JStr []) \<longrightarrow>
           (\<exists>c. fst (get_current_conditions ev (JStr u) w) = Inr (Some c)
                \<and> conditions.icon c = JStr []))"
proof -
  have run: "get_current_conditions ev (JStr u) w
           = (case observation_conditions (JObj kvs) of
                Inl e \<Rightarrow> Inr None | Inr c \<Rightarrow> Inr (Some c),
              w\<lparr>requests := requests w @ [Url u, observations_latest station_id]\<rparr>)"
    using assms by (rule conditions_run)
  have returned: "observation_conditions (JObj kvs) = Inr c"
    if "fst (get_current_conditions ev (JStr u) w) = Inr (Some c)" for c
    using that unfolding run by (cases "observation_conditions (JObj kvs)") simp_all
  have defaults: "description c =
             (case map_of kvs ''textDescription'' of
                None \<Rightarrow> JStr ''N/A''
              | Some v \<Rightarrow> if truthy v then v else JStr ''N/A'')
           \<and> conditions.icon c =
             (case map_of kvs ''icon'' of
                None \<Rightarrow> JStr []
              | Some v \<Rightarrow> if truthy v then v else JStr [])"
    if "fst (get_current_conditions ev (JStr u) w) = Inr (Some c)" for c
    using observation_conditions_defaults [OF returned [OF that]]
    by (auto simp add: py_or_def spec_field_def split: option.splits)
  have some: "\<exists>c. fst (get_current_conditions ev (JStr u) w) = Inr (Some c)"
    if "observation_ok kvs"
    using observation_conditions_ok [OF that] unfolding run by auto
  have empty_description: "\<exists>c. fst (get_current_conditions ev (JStr u) w) = Inr (Some c)
                \<and> description c = JStr ''N/A''"
    if "observation_ok kvs \<and> map_of kvs ''textDescription'' = Some (JStr [])"
  proof -
    from that some obtain c where c: "fst (get_current_conditions ev (JStr u) w) = Inr (Some c)"
      by blast
    with defaults [OF c] that show ?thesis
      by auto
  qed
  have empty_icon: "\<exists>c. fst (get_current_conditions ev (JStr u) w) = Inr (Some c)
                \<and> conditions.icon c = JStr []"
    if "observation_ok kvs \<and> map_of kvs ''icon'' = Some (JStr [])"
  proof -
    from that some obtain c where c: "fst (get_current_conditions ev (JStr u) w) = Inr (Some c)"
      by blast
    with defaults [OF c] that show ?thesis
      by auto
  qed
  from run defaults some empty_description empty_icon show ?thesis
    by blast
qed

theorem conditions_default_on_falsy_witness:
  "upstream ex_env_observed (length (requests ex_world)) (Url ex_stations_url)
     = Response 200 [] (Some ex_stations_listed)
   \<and> is_success 200
   \<and> subscript ex_stations_listed ''features'' = Inr (JArr [JObj [(''id'', JStr ex_station_id)]])
   \<and> truthy (JArr [JObj [(''id'', JStr ex_station_id)]])
   \<and> subscript0 (JArr [JObj [(''id'', JStr ex_station_id)]])
       = Inr (JObj [(''id'', JStr ex_station_id)])
   \<and> subscript (JObj [(''id'', JStr ex_station_id)]) ''id'' = Inr (JStr ex_station_id)
   \<and> upstream ex_env_observed (Suc (length (requests ex_world)))
        (observations_latest (JStr ex_station_id))
       = Response 200 [] (Some ex_observation_body)
   \<and> subscript ex_observation_body ''properties'' = Inr (JObj ex_observation)
   \<and> observation_ok ex_observation
   \<and> map_of ex_observation ''textDescription'' = Some (JStr [])
   \<and> map_of ex_observation ''icon'' = Some (JStr [])
   \<and> get_current_conditions ex_env_observed (JStr ex_stations_url) ex_world
       = (Inr (Some ex_conditions),
          ex_world\<lparr>requests :=
            [Url ex_stations_url, Url (ex_station_id @ ''/observations/latest'')]\<rparr>)
   \<and> description ex_conditions = JStr ''N/A''
   \<and> conditions.icon ex_conditions = JStr []"
proof -
  have h1: "upstream ex_env_observed (length (requests ex_world)) (Url ex_stations_url)
     = Response 200 [] (Some ex_stations_listed)"
    by (simp add: ex_env_observed_def ex_upstream_observed_def)
  have h2: "is_success 200"
    by (simp add: is_success_def)
  have h3: "subscript ex_stations_listed ''features''
      = Inr (JArr [JObj [(''id'', JStr ex_station_id)]])"
    by (simp add: ex_stations_listed_def)
  have h4: "truthy (JArr [JObj [(''id'', JStr ex_station_id)]])"
    by simp
  have h5: "subscript0 (JArr [JObj [(''id'', JStr ex_station_id)]])
       = Inr (JObj [(''id'', JStr ex_station_id)])"
    by simp
  have h6: "subscript (JObj [(''id'', JStr ex_station_id)]) ''id'' = Inr (JStr ex_station_id)"
    by simp
  have h7: "upstream ex_env_observed (Suc (length (requests ex_world)))
        (observations_latest (JStr ex_station_id))
       = Response 200 [] (Some ex_observation_body)"
    by (simp add: ex_env_observed_def ex_upstream_observed_def ex_stations_url_def
        ex_station_id_def)
  have h9: "subscript ex_observation_body ''properties'' = Inr (JObj ex_observation)"
    by (simp add: ex_observation_body_def)
  have m: "map_of ex_observation ''textDescription'' = Some (JStr [])"
    "map_of ex_observation ''icon'' = Some (JStr [])"
    by (simp_all add: ex_observation_def)
  note t = conditions_default_on_falsy [OF h1 h2 h3 h4 h5 h6 h7 h2 h9]
  from t ex_observation_ok m
  obtain c where c: "fst (get_current_conditions ex_env_observed (JStr ex_stations_url) ex_world)
      = Inr (Some c)" and d: "description c = JStr ''N/A''"
    by blast
  from t ex_observation_ok m
  obtain c' where c': "fst (get_current_conditions ex_env_observed (JStr ex_stations_url) ex_world)
      = Inr (Some c')" and i: "conditions.icon c' = JStr []"
    by blast
  from c c' d i ex_observed_run have "description ex_conditions = JStr ''N/A''"
    and "conditions.icon ex_conditions = JStr []"
    by simp_all
  with h1 h2 h3 h4 h5 h6 h7 h9 m ex_observation_ok ex_observed_run show ?thesis
    by blast
qed

text \<open>
  C2. \<^verbatim>\<open>get_current_conditions\<close> never raises: whatever the upstream answers, whatever the
  URL and the state, it returns, and it returns \<^verbatim>\<open>None\<close> whenever its \<^verbatim>\<open>try\<close> block raised.
  In particular it returns \<^verbatim>\<open>None\<close> when the stations list is empty, when the stations
  request gets a status outside 2xx, when the request itself fails, and when the body
  is not JSON. Once the grid point and the hourly forecast are there, \<^verbatim>\<open>get_forecast\<close>
  succeeds, with that hourly forecast and with what \<^verbatim>\<open>get_current_conditions\<close> returned.
\<close>

theorem current_conditions_never_raise:
  "(\<exists>c. fst (get_current_conditions ev url w) = Inr c)
   \<and> (fst (current_conditions_try ev url w) = Inl e \<longrightarrow>
        fst (get_current_conditions ev url w) = Inr None)
   \<and> (upstream ev (length (requests w)) (Url u) = Response status rtext (Some body)
       \<and> is_success status \<and> subscript body ''features'' = Inr (JArr []) \<longrightarrow>
        get_current_conditions ev (JStr u) w
          = (Inr None, w\<lparr>requests := requests w @ [Url u]\<rparr>))
   \<and> (upstream ev (length (requests w)) (Url u1) = Response status1 rtext1 body1
       \<and> \<not> is_success status1 \<longrightarrow>
        fst (get_current_conditions ev (JStr u1) w) = Inr None)
   \<and> (upstream ev (length (requests w)) (Url u2) = Raises x \<longrightarrow>
        fst (get_current_conditions ev (JStr u2) w) = Inr None)
   \<and> (upstream ev (length (requests w)) (Url u3) = Response status3 rtext3 None \<longrightarrow>
        fst (get_current_conditions ev (JStr u3) w) = Inr None)
   \<and> (get_grid_point ev lat lon w = (Inr gp, w1)
       \<and> get_hourly_forecast ev (forecastHourly gp) w1 = (Inr hf, w2) \<longrightarrow>
        (\<exists>r w'. get_forecast ev lat lon w = (Inr r, w')
           \<and> hourlyForecast r = hf
           \<and> Inr (currentConditions r)
               = fst (get_current_conditions ev (observationStations gp) w2)))"
proof (intro conjI impI)
  show "\<exists>c. fst (get_current_conditions ev url w) = Inr c"
    by (rule get_current_conditions_total)
next
  assume "fst (current_conditions_try ev url w) = Inl e"
  then show "fst (get_current_conditions ev url w) = Inr None"
    by (cases "current_conditions_try ev url w") (simp add: get_current_conditions_def)
next
  assume "upstream ev (length (requests w)) (Url u) = Response status rtext (Some body)
       \<and> is_success status \<and> subscript body ''features'' = Inr (JArr [])"
  then show "get_current_conditions ev (JStr u) w
          = (Inr None, w\<lparr>requests := requests w @ [Url u]\<rparr>)"
    using no_stations [where ev = ev and w = w and u = u and stations = "JArr []"] by simp
next
  assume "upstream ev (length (requests w)) (Url u1) = Response status1 rtext1 body1
       \<and> \<not> is_success status1"
  then have "checked_json (upstream ev (length (requests w)) (Url u1))
       = Inl (HTTPStatusError status1 rtext1)"
    by (simp add: checked_json_def)
  from try_first_fetch_fails [OF this]
  show "fst (get_current_conditions ev (JStr u1) w) = Inr None"
    by simp
next
  assume "upstream ev (length (requests w)) (Url u2) = Raises x"
  then have "checked_json (upstream ev (length (requests w)) (Url u2)) = Inl x"
    by (simp add: checked_json_def)
  from try_first_fetch_fails [OF this]
  show "fst (get_current_conditions ev (JStr u2) w) = Inr None"
    by simp
next
  assume "upstream ev (length (requests w)) (Url u3) = Response status3 rtext3 None"
  then have "\<exists>x. checked_json (upstream ev (length (requests w)) (Url u3)) = Inl x"
    by (simp add: checked_json_def)
  then obtain x where "checked_json (upstream ev (length (requests w)) (Url u3)) = Inl x"
    by blast
  from try_first_fetch_fails [OF this]
  show "fst (get_current_conditions ev (JStr u3) w) = Inr None"
    by simp
next
  assume "get_grid_point ev lat lon w = (Inr gp, w1)
       \<and> get_hourly_forecast ev (forecastHourly gp) w1 = (Inr hf, w2)"
  then show "\<exists>r w'. get_forecast ev lat lon w = (Inr r, w')
           \<and> hourlyForecast r = hf
           \<and> Inr (currentConditions r)
               = fst (get_current_conditions ev (observationStations gp) w2)"
    using forecast_after_hourly [where ev = ev and w = w and gp = gp and ?w1.0 = w1 and ?w2.0 = w2] by blast
qed

theorem current_conditions_never_raise_witness:
  "upstream ex_env 2 (Url ex_stations_url) = Response 200 [] (Some ex_stations_body)
   \<and> is_success 200
   \<and> subscript ex_stations_body ''features'' = Inr (JArr [])
   \<and> get_current_conditions ex_env (JStr ex_stations_url)
        (ex_world_cached\<lparr>requests := [Points ex_lat ex_lon, Url ex_hourly_url]\<rparr>)
       = (Inr None,
          ex_world_cached\<lparr>requests := [Points ex_lat ex_lon, Url ex_hourly_url, Url ex_stations_url]\<rparr>)
   \<and> upstream ex_env_503 0 (Url ex_hourly_url) = Response 503 ''Service Unavailable'' None
   \<and> \<not> is_success 503
   \<and> fst (get_current_conditions ex_env_503 (JStr ex_hourly_url) ex_world) = Inr None
   \<and> upstream ex_env 0 (Url ''nowhere'') = Raises (RequestError ''Name or service not known'')
   \<and> fst (get_current_conditions ex_env (JStr ''nowhere'') ex_world) = Inr None
   \<and> get_grid_point ex_env ex_lat ex_lon ex_world = (Inr ex_gridpoint, ex_world_cached)
   \<and> get_hourly_forecast ex_env (forecastHourly ex_gridpoint) ex_world_cached
       = (Inr [spec_period ex_period_1, spec_period ex_period_2],
          ex_world_cached\<lparr>requests := [Points ex_lat ex_lon, Url ex_hourly_url]\<rparr>)
   \<and> fst (get_forecast ex_env ex_lat ex_lon ex_world) = Inr ex_response
   \<and> currentConditions ex_response = None
   \<and> hourlyForecast ex_response = [spec_period ex_period_1, spec_period ex_period_2]"
proof -
  let ?w2 = "ex_world_cached\<lparr>requests := [Points ex_lat ex_lon, Url ex_hourly_url]\<rparr>"
  have a: "upstream ex_env 2 (Url ex_stations_url) = Response 200 [] (Some ex_stations_body)"
    "is_success 200" "subscript ex_stations_body ''features'' = Inr (JArr [])"
    by (simp_all add: ex_env_def ex_upstream_def ex_urls ex_stations_body_def is_success_def)
  have len: "length (requests ?w2) = 2" "requests ?w2 @ [Url ex_stations_url]
      = [Points ex_lat ex_lon, Url ex_hourly_url, Url ex_stations_url]"
    by simp_all
  have b: "upstream ex_env_503 0 (Url ex_hourly_url) = Response 503 ''Service Unavailable'' None"
    "\<not> is_success 503"
    by (simp_all add: ex_env_503_def ex_upstream_def is_success_def)
  have c: "upstream ex_env 0 (Url ''nowhere'') = Raises (RequestError ''Name or service not known'')"
    by (simp add: ex_env_def ex_upstream_def ex_hourly_url_def ex_stations_url_def)
  have w0: "length (requests ex_world) = 0"
    by (simp add: ex_world_def)
  have h: "get_hourly_forecast ex_env (forecastHourly ex_gridpoint) ex_world_cached
       = (Inr [spec_period ex_period_1, spec_period ex_period_2], ?w2)"
    using ex_hourly by (simp add: ex_gridpoint_def)
  have a': "upstream ex_env (length (requests ?w2)) (Url ex_stations_url)
      = Response 200 [] (Some ex_stations_body)"
    using a(1) by (simp add: numeral_2_eq_2)
  have b': "upstream ex_env_503 (length (requests ex_world)) (Url ex_hourly_url)
      = Response 503 ''Service Unavailable'' None"
    using b(1) by (simp add: ex_world_def)
  have c': "upstream ex_env (length (requests ex_world)) (Url ''nowhere'')
      = Raises (RequestError ''Name or service not known'')"
    using c by (simp add: ex_world_def)
  have r1: "get_current_conditions ex_env (JStr ex_stations_url) ?w2
       = (Inr None, ?w2\<lparr>requests := requests ?w2 @ [Url ex_stations_url]\<rparr>)"
    using current_conditions_never_raise
      [where ev = ex_env and w = ?w2 and u = ex_stations_url and status = 200
        and rtext = "[]" and body = ex_stations_body]
      a' a(2,3)
    by blast
  have r2: "fst (get_current_conditions ex_env_503 (JStr ex_hourly_url) ex_world) = Inr None"
    using current_conditions_never_raise
      [where ev = ex_env_503 and w = ex_world and ?u1.0 = ex_hourly_url and ?status1.0 = 503
        and ?rtext1.0 = "''Service Unavailable''" and ?body1.0 = None]
      b' b(2)
    by blast
  have r3: "fst (get_current_conditions ex_env (JStr ''nowhere'') ex_world) = Inr None"
    using current_conditions_never_raise
      [where ev = ex_env and w = ex_world and ?u2.0 = "''nowhere''"
        and x = "RequestError ''Name or service not known''"]
      c'
    by blast
  have "fst (get_forecast ex_env ex_lat ex_lon ex_world) = Inr ex_response"
    by (simp add: ex_forecast)
  with a b c h r1 r2 r3 ex_first_call show ?thesis
    by (simp add: ex_response_def)
qed

section \<open>Properties of the route\<close>

text \<open>
  C4. When the points lookup is made (no entry for the key, or a stale one) and answers
  with a status outside 2xx, and when the hourly forecast request does, \<^verbatim>\<open>get_forecast\<close>
  raises an \<^verbatim>\<open>HTTPException\<close> whose status code is the upstream's and whose detail is
  \<^verbatim>\<open>"Weather API error: "\<close> followed by the rtext of the upstream response. For valid
  coordinates the route answers with this exception, hence with this status.
\<close>

theorem upstream_http_error_propagates:
  "((case grid_point_cache w (cache_key lat lon) of
       None \<Rightarrow> True | Some c \<Rightarrow> \<not> fresh (clock ev (ticks w)) c)
     \<and> upstream ev (length (requests w)) (Points lat lon) = Response status rtext body
     \<and> \<not> is_success status \<longrightarrow>
       fst (get_forecast ev lat lon w)
         = Inl (HTTPException status (Message (''Weather API error: '' @ rtext))))
   \<and> (get_grid_point ev lat lon w = (Inr gp, w1) \<and> forecastHourly gp = JStr u
       \<and> upstream ev (length (requests w1)) (Url u) = Response status1 rtext1 body1
       \<and> \<not> is_success status1 \<longrightarrow>
       fst (get_forecast ev lat lon w)
         = Inl (HTTPException status1 (Message (''Weather API error: '' @ rtext1))))
   \<and> (valid_query lat lon \<and> fst (get_forecast ev lat lon w) = Inl (HTTPException status2 d) \<longrightarrow>
       fst (forecast_route ev lat lon w) = Failure (HTTPException status2 d)
       \<and> reply_status (fst (forecast_route ev lat lon w)) = status2)"
proof (intro conjI impI)
  assume "(case grid_point_cache w (cache_key lat lon) of
       None \<Rightarrow> True | Some c \<Rightarrow> \<not> fresh (clock ev (ticks w)) c)
     \<and> upstream ev (length (requests w)) (Points lat lon) = Response status rtext body
     \<and> \<not> is_success status"
  then show "fst (get_forecast ev lat lon w)
         = Inl (HTTPException status (Message (''Weather API error: '' @ rtext)))"
    using forecast_points_error [where w = w and lat = lat and lon = lon and ev = ev] by blast
next
  assume "get_grid_point ev lat lon w = (Inr gp, w1) \<and> forecastHourly gp = JStr u
       \<and> upstream ev (length (requests w1)) (Url u) = Response status1 rtext1 body1
       \<and> \<not> is_success status1"
  then show "fst (get_forecast ev lat lon w)
         = Inl (HTTPException status1 (Message (''Weather API error: '' @ rtext1)))"
    using forecast_hourly_error [where ev = ev and w = w and gp = gp and ?w1.0 = w1 and u = u] by blast
next
  assume a: "valid_query lat lon \<and> fst (get_forecast ev lat lon w) = Inl (HTTPException status2 d)"
  then show "fst (forecast_route ev lat lon w) = Failure (HTTPException status2 d)"
    by (cases "get_forecast ev lat lon w") (simp add: forecast_route_def)
  then show "reply_status (fst (forecast_route ev lat lon w)) = status2"
    by simp
qed

theorem upstream_http_error_propagates_witness:
  "grid_point_cache ex_world (cache_key ex_lat ex_lon) = None
   \<and> upstream ex_env_404 0 (Points ex_lat ex_lon) = Response 404 ''Not Found'' None
   \<and> \<not> is_success 404
   \<and> fst (get_forecast ex_env_404 ex_lat ex_lon ex_world)
       = Inl (HTTPException 404 (Message ''Weather API error: Not Found''))
   \<and> get_grid_point ex_env_503 ex_lat ex_lon ex_world = (Inr ex_gridpoint, ex_world_cached)
   \<and> forecastHourly ex_gridpoint = JStr ex_hourly_url
   \<and> upstream ex_env_503 1 (Url ex_hourly_url) = Response 503 ''Service Unavailable'' None
   \<and> \<not> is_success 503
   \<and> fst (get_forecast ex_env_503 ex_lat ex_lon ex_world)
       = Inl (HTTPException 503 (Message ''Weather API error: Service Unavailable''))
   \<and> valid_query ex_lat ex_lon
   \<and> reply_status (fst (forecast_route ex_env_503 ex_lat ex_lon ex_world)) = 503"
proof -
  have a: "grid_point_cache ex_world (cache_key ex_lat ex_lon) = None"
    "length (requests ex_world) = 0"
    by (simp_all add: ex_world_def)
  have b: "upstream ex_env_404 0 (Points ex_lat ex_lon) = Response 404 ''Not Found'' None"
    "\<not> is_success 404"
    by (simp_all add: ex_env_404_def ex_upstream_def is_success_def)
  have c: "forecastHourly ex_gridpoint = JStr ex_hourly_url" "length (requests ex_world_cached) = 1"
    by (simp_all add: ex_gridpoint_def ex_world_cached_def)
  have d: "upstream ex_env_503 1 (Url ex_hourly_url) = Response 503 ''Service Unavailable'' None"
    "\<not> is_success 503"
    by (simp_all add: ex_env_503_def ex_upstream_def is_success_def)
  have a': "case grid_point_cache ex_world (cache_key ex_lat ex_lon) of
       None \<Rightarrow> True | Some c \<Rightarrow> \<not> fresh (clock ex_env_404 (ticks ex_world)) c"
    using a(1) by (simp add: numeral_2_eq_2)
  have b': "upstream ex_env_404 (length (requests ex_world)) (Points ex_lat ex_lon)
      = Response 404 ''Not Found'' None"
    using b(1) a(2) by simp
  have d': "upstream ex_env_503 (length (requests ex_world_cached)) (Url ex_hourly_url)
      = Response 503 ''Service Unavailable'' None"
    using d(1) c(2) by simp
  have r1: "fst (get_forecast ex_env_404 ex_lat ex_lon ex_world)
       = Inl (HTTPException 404 (Message (''Weather API error: '' @ ''Not Found'')))"
    using upstream_http_error_propagates
      [where w = ex_world and lat = ex_lat and lon = ex_lon and ev = ex_env_404
        and status = 404 and rtext = "''Not Found''" and body = None]
      a' b' b(2)
    by blast
  have r2: "fst (get_forecast ex_env_503 ex_lat ex_lon ex_world)
       = Inl (HTTPException 503 (Message (''Weather API error: '' @ ''Service Unavailable'')))"
    using upstream_http_error_propagates
      [where w = ex_world and lat = ex_lat and lon = ex_lon and ev = ex_env_503
        and gp = ex_gridpoint and ?w1.0 = ex_world_cached and u = ex_hourly_url
        and ?status1.0 = 503 and ?rtext1.0 = "''Service Unavailable''" and ?body1.0 = None]
      ex_first_call_503 c(1) d' d(2)
    by blast
  have r3: "reply_status (fst (forecast_route ex_env_503 ex_lat ex_lon ex_world)) = 503"
    using upstream_http_error_propagates
      [where w = ex_world and lat = ex_lat and lon = ex_lon and ev = ex_env_503
        and ?status2.0 = 503
        and d = "Message (''Weather API error: '' @ ''Service Unavailable'')"]
      ex_valid r2
    by blast
  from a b c d r1 r2 r3 ex_first_call_503 ex_valid show ?thesis
    by simp
qed

text \<open>
  C3, as the code has it. A latitude below -90 or above 90, or a longitude below -180 or
  above 180, fails the \<^verbatim>\<open>Query\<close> constraints of the route: the handler is not called, no
  request goes upstream and the state is unchanged. The answer is FastAPI's validation
  response, whose status is 422.
\<close>

theorem out_of_range_rejected:
  "float_lt_int lat (- 90) \<or> int_lt_float 90 lat
   \<or> float_lt_int lon (- 180) \<or> int_lt_float 180 lon \<longrightarrow>
     forecast_route ev lat lon w = (ValidationFailure, w)
     \<and> reply_status (fst (forecast_route ev lat lon w)) = 422
     \<and> requests (snd (forecast_route ev lat lon w)) = requests w"
proof
  assume "float_lt_int lat (- 90) \<or> int_lt_float 90 lat
   \<or> float_lt_int lon (- 180) \<or> int_lt_float 180 lon"
  then have "\<not> valid_query lat lon"
    by (rule outside_invalid)
  then show "forecast_route ev lat lon w = (ValidationFailure, w)
     \<and> reply_status (fst (forecast_route ev lat lon w)) = 422
     \<and> requests (snd (forecast_route ev lat lon w)) = requests w"
    by (simp add: route_invalid)
qed

theorem out_of_range_rejected_witness:
  "int_lt_float 90 (Float 91 0)
   \<and> forecast_route ex_env (Float 91 0) ex_lon ex_world = (ValidationFailure, ex_world)
   \<and> reply_status (fst (forecast_route ex_env (Float 91 0) ex_lon ex_world)) = 422
   \<and> requests (snd (forecast_route ex_env (Float 91 0) ex_lon ex_world)) = []"
  using out_of_range_rejected [where lat = "Float 91 0" and lon = ex_lon and ev = ex_env and w = ex_world] ex_invalid
  by (simp add: ex_world_def)

text \<open>
  C3 as the claim words it, with status 400, fails: latitude 91 is answered with 422.
\<close>

theorem out_of_range_status_counterexample:
  "int_lt_float 90 (Float 91 0)
   \<and> reply_status (fst (forecast_route ex_env (Float 91 0) ex_lon ex_world)) \<noteq> 400"
  by (simp add: forecast_route_def valid_query_def)

end
